theory Spec2Isabelle
  imports Complex_Main "HOL-Library.Word"
begin

section \<open>Magnetometer calibration: src/modules/commander/mag_calibration.cpp\<close>

text \<open>
  The two functions of the file, \<open>do_mag_calibration\<close> and \<open>calibrate_instance\<close>, are
  embedded as pure functions of an environment. The environment holds what the
  external collaborators answer (device driver, uORB, clock, allocator, sphere fit,
  parameter store); the functions return the status \<open>res\<close> together with the list of
  the external calls they make, in order. Calls with no effect on what is verified
  here (\<open>sleep\<close>, \<open>usleep\<close>, \<open>close\<close>, \<open>orb_set_interval\<close>, \<open>delete\<close>, \<open>poll\<close>
  itself) are not recorded as events; the answers of \<open>poll\<close> and of the clock are inputs.
\<close>

subsection \<open>Values\<close>

text \<open>
  A C \<open>float\<close>: a finite value, an infinity or a NaN. The code only copies floats and
  tests them with \<open>isfinite\<close>; a finite value is kept as the rational it is. A literal
  of the source stands for the binary32 number it is rounded to (0.0f, 1.0f and 25.00f
  are exact).
\<close>

datatype float = Finite rat | PlusInf | MinusInf | NaN

fun isfinite :: "float \<Rightarrow> bool" where
  "isfinite (Finite _) = True"
| "isfinite PlusInf = False"
| "isfinite MinusInf = False"
| "isfinite NaN = False"

text \<open>\<open>OK\<close> is 0 (NuttX); \<open>ERROR\<close> is the file's own constant, line 62.\<close>

definition OK :: int where
  "OK = 0"

definition ERROR :: int where
  "ERROR = - 1"

text \<open>A three-element float array, \<open>float a[3]\<close>, read at a loop index \<open>j < 3\<close>.\<close>

type_synonym float3 = "float \<times> float \<times> float"

fun idx3 :: "float3 \<Rightarrow> nat \<Rightarrow> float" where
  "idx3 (a, b, c) j = (if j = 0 then a else if j = 1 then b else c)"

text \<open>
  \<open>struct mag_scale\<close> (declared in drivers/drv_mag.h, which is not part of the
  sources at hand): the first six fields in the order of the initialiser at lines
  76-85, then the temperature-compensation fields the code names at lines 315-330.
\<close>

record mag_scale =
  x_offset :: float
  x_scale :: float
  y_offset :: float
  y_scale :: float
  z_offset :: float
  z_scale :: float
  cal_temp :: float
  min_temp :: float
  max_temp :: float
  x1_temp :: float3
  x2_temp :: float3
  x3_temp :: float3

text \<open>
  \<open>mscale_null[s]\<close>, lines 76-85 and 109: six initialisers, the remaining members
  zero-initialised, and every element copied from the first.
\<close>

definition mscale_null :: mag_scale where
  "mscale_null =
     \<lparr> x_offset = Finite 0, x_scale = Finite 1,
       y_offset = Finite 0, y_scale = Finite 1,
       z_offset = Finite 0, z_scale = Finite 1,
       cal_temp = Finite 0, min_temp = Finite 0, max_temp = Finite 0,
       x1_temp = (Finite 0, Finite 0, Finite 0),
       x2_temp = (Finite 0, Finite 0, Finite 0),
       x3_temp = (Finite 0, Finite 0, Finite 0) \<rparr>"

text \<open>A value handed to \<open>param_set\<close>: the unsigned device id or a float field.\<close>

datatype pvalue = PUInt "32 word" | PFloat float

subsection \<open>Events: the external calls the code makes\<close>

text \<open>
  Messages: the macros of calibration_messages.h by name, literal format strings as
  \<open>Text\<close> (the formatted arguments are not recorded, but for the progress percentage).
\<close>

datatype msg =
    CAL_STARTED_MSG
  | CAL_DONE_MSG
  | CAL_FAILED_MSG
  | CAL_PROGRESS_MSG nat
  | CAL_FAILED_RESET_CAL_MSG
  | CAL_FAILED_SENSOR_MSG
  | CAL_FAILED_APPLY_CAL_MSG
  | CAL_FAILED_SET_PARAMS_MSG
  | CAL_FAILED_SAVE_PARAMS_MSG
  | Text string

text \<open>
  \<open>Open s\<close> is \<open>open\<close> of MAG_BASE_DEVICE_PATH followed by the decimal \<open>s\<close>; the
  ioctl events carry the index of the device they address; \<open>SphereFit s xs ys zs n\<close>
  is the call of \<open>sphere_fit_least_squares\<close> made inside \<open>calibrate_instance\<close> for
  instance \<open>s\<close>; \<open>ParamSet name v r\<close> is \<open>param_set(param_find(name), &v)\<close> returning
  \<open>r\<close>.
\<close>

datatype event =
    Info msg
  | Critical msg
  | Open nat
  | GetDeviceId nat
  | SetScale nat mag_scale
  | Calibrate nat
  | Subscribe nat
  | SphereFit nat "float list" "float list" "float list" nat
  | GetScale nat
  | ParamSet string pvalue int
  | ParamSave

subsection \<open>The environment\<close>

text \<open>
  What the collaborators answer while one instance is processed. \<open>loop_time k\<close>,
  \<open>poll_ret k\<close> and \<open>mag_report k\<close> are the clock reading at the \<open>k\<close>-th evaluation of
  the loop condition, the result of the \<open>k\<close>-th \<open>poll\<close> and the sample \<open>orb_copy\<close>
  delivers after it. \<open>x_null\<close>, \<open>y_null\<close>, \<open>z_null\<close> say whether
  \<open>new float[calibration_maxcount]\<close> returned \<open>nullptr\<close> (line 177).
  \<open>uninit_sphere\<close> is the indeterminate content of the locals
  \<open>sphere_x\<close>, \<open>sphere_y\<close>, \<open>sphere_z\<close> (lines 255-257), which are declared without
  an initialiser.
\<close>

record inst_env =
  open_fd :: int
  device_id_ret :: "32 word"
  reset_ret :: int
  calibrate_ret :: int
  x_null :: bool
  y_null :: bool
  z_null :: bool
  subscribe_ret :: int
  time0 :: "64 word"
  loop_time :: "nat \<Rightarrow> 64 word"
  poll_ret :: "nat \<Rightarrow> int"
  mag_report :: "nat \<Rightarrow> float \<times> float \<times> float"
  uninit_sphere :: "float \<times> float \<times> float"
  get_scale_ret :: int
  get_scale_val :: mag_scale
  apply_ret :: int
  param_set :: "string \<Rightarrow> pvalue \<Rightarrow> int"

text \<open>
  The whole run: the instances by index, \<open>sphere_fit_least_squares\<close> (of
  calibration_routines.h, not part of the sources at hand) as the function from the
  sample arrays and their size to the centre it stores, and the result of
  \<open>param_save_default\<close>.
\<close>

record env =
  inst :: "nat \<Rightarrow> inst_env"
  sphere_fit_least_squares ::
    "float list \<Rightarrow> float list \<Rightarrow> float list \<Rightarrow> nat \<Rightarrow> float \<times> float \<times> float"
  param_save_default :: int

subsection \<open>Formatting\<close>

text \<open>\<open>%u\<close> of \<open>sprintf\<close>: an unsigned in decimal.\<close>

fun dec :: "nat \<Rightarrow> string" where
  "dec n = (if n < 10 then [''0123456789'' ! n]
            else dec (n div 10) @ [''0123456789'' ! (n mod 10)])"

declare dec.simps [simp del]

subsection \<open>The acquisition loop, lines 215-249\<close>

definition calibration_maxcount :: nat where
  "calibration_maxcount = 240"

definition calibration_interval :: "64 word" where
  "calibration_interval = 25 * 1000 * 1000"

text \<open>
  The variables the loop changes: \<open>x_arr\<close>, \<open>y_arr\<close>, \<open>z_arr\<close> are the filled
  part of the arrays \<open>x\<close>, \<open>y\<close>, \<open>z\<close>, \<open>acq_res\<close> is \<open>res\<close> and \<open>acq_log\<close> the events
  so far. \<open>polls\<close> counts the calls of \<open>poll\<close> made so far; it
  is the index into the environment. The counters are \<open>unsigned\<close> in the source; they
  start at 0 and stay below 241 and 1002, so they never wrap.
\<close>

record acq =
  calibration_counter :: nat
  poll_errcount :: nat
  x_arr :: "float list"
  y_arr :: "float list"
  z_arr :: "float list"
  acq_res :: int
  polls :: nat
  acq_log :: "event list"

definition poll_step :: "inst_env \<Rightarrow> acq \<Rightarrow> acq" where
  "poll_step e st =
     (if 0 < poll_ret e (polls st) then
        (case mag_report e (polls st) of (mx, my, mz) \<Rightarrow>
          st\<lparr> x_arr := x_arr st @ [mx], y_arr := y_arr st @ [my], z_arr := z_arr st @ [mz],
              calibration_counter := calibration_counter st + 1,
              polls := polls st + 1,
              acq_log := acq_log st @
                (if (calibration_counter st + 1) mod (calibration_maxcount div 20) = 0
                 then [Info (CAL_PROGRESS_MSG
                   (20 + ((calibration_counter st + 1) * 50) div calibration_maxcount))]
                 else []) \<rparr>)
      else st\<lparr> poll_errcount := poll_errcount st + 1, polls := polls st + 1 \<rparr>)"

function acquire_loop :: "inst_env \<Rightarrow> 64 word \<Rightarrow> acq \<Rightarrow> acq" where
  "acquire_loop e calibration_deadline st =
     (if loop_time e (polls st) < calibration_deadline
         \<and> calibration_counter st < calibration_maxcount then
        (let st1 = poll_step e st in
         if 1000 < poll_errcount st1 then
           st1\<lparr> acq_res := ERROR, acq_log := acq_log st1 @ [Critical CAL_FAILED_SENSOR_MSG] \<rparr>
         else acquire_loop e calibration_deadline st1)
      else st)"
  by pat_completeness auto
termination
  by (relation "measure (\<lambda>(e, d, st).
        (calibration_maxcount - calibration_counter st) + (1001 - poll_errcount st))")
     (auto simp: poll_step_def calibration_maxcount_def split: prod.splits if_splits)

declare acquire_loop.simps [simp del]

subsection \<open>\<open>calibrate_instance\<close>, lines 158-380\<close>

text \<open>
  Lines 197-253: subscription and acquisition. When the subscription fails,
  \<open>calibration_counter\<close> is left uninitialised; the source never reads it then
  (\<open>res == OK &&\<close> at line 260 fails first), the model holds 0 there.
\<close>

definition acquire :: "inst_env \<Rightarrow> nat \<Rightarrow> acq" where
  "acquire e s =
     (if subscribe_ret e < 0 then
        \<lparr> calibration_counter = 0, poll_errcount = 0, x_arr = [], y_arr = [], z_arr = [],
          acq_res = ERROR, polls = 0,
          acq_log = [Subscribe s, Critical (Text ''No mag found, abort'')] \<rparr>
      else
        acquire_loop e (time0 e + calibration_interval)
          \<lparr> calibration_counter = 0, poll_errcount = 0, x_arr = [], y_arr = [], z_arr = [],
            acq_res = OK, polls = 0,
            acq_log = [Subscribe s,
                   Info (Text ''Turn on all sides: front/back,left/right,up/down'')] \<rparr>)"

text \<open>
  Lines 255-271: the sphere fit. The result is the status, the content of
  \<open>sphere_x\<close>, \<open>sphere_y\<close>, \<open>sphere_z\<close> afterwards, and the events.
\<close>

definition fit_phase ::
  "env \<Rightarrow> inst_env \<Rightarrow> nat \<Rightarrow> acq \<Rightarrow> int \<times> (float \<times> float \<times> float) \<times> event list" where
  "fit_phase g e s a =
     (if acq_res a = OK \<and> calibration_maxcount div 2 < calibration_counter a then
        (case sphere_fit_least_squares g (x_arr a) (y_arr a) (z_arr a) (calibration_counter a) of
          (sphere_x, sphere_y, sphere_z) \<Rightarrow>
            (if \<not> isfinite sphere_x \<or> \<not> isfinite sphere_y \<or> \<not> isfinite sphere_z then ERROR
             else acq_res a,
             (sphere_x, sphere_y, sphere_z),
             [Info (CAL_PROGRESS_MSG 70),
              SphereFit s (x_arr a) (y_arr a) (z_arr a) (calibration_counter a),
              Info (CAL_PROGRESS_MSG 80)] @
             (if \<not> isfinite sphere_x \<or> \<not> isfinite sphere_y \<or> \<not> isfinite sphere_z
              then [Critical (Text ''ERROR: NaN in sphere fit'')] else [])))
      else (acq_res a, uninit_sphere e, []))"

text \<open>
  Lines 287-308: read the scale struct of the device, replace the offsets, write it
  back. The result is the status, the local \<open>mscale\<close> afterwards, and the events.
  \<open>get_scale_val\<close> is the content of \<open>mscale\<close> after the ioctl, whatever it returned.
\<close>

definition read_and_apply ::
  "inst_env \<Rightarrow> nat \<Rightarrow> float \<times> float \<times> float \<Rightarrow> int \<times> mag_scale \<times> event list" where
  "read_and_apply e s c =
     (case c of (sphere_x, sphere_y, sphere_z) \<Rightarrow>
       if get_scale_ret e = OK then
         (let mscale = (get_scale_val e)
                \<lparr> x_offset := sphere_x, y_offset := sphere_y, z_offset := sphere_z \<rparr>
          in (apply_ret e, mscale,
              [Open s, GetScale s, SetScale s mscale] @
              (if apply_ret e \<noteq> OK then [Critical CAL_FAILED_APPLY_CAL_MSG] else [])))
       else
         (get_scale_ret e, get_scale_val e,
          [Open s, GetScale s,
           Critical (Text ''ERROR: failed to get current calibration'')]))"

text \<open>
  Lines 314-331: the hardcoded temperature terms. Each literal has the suffix \<open>f\<close>: the
  value stored is the binary32 number nearest to the decimal written, given here
  exactly as significand over a power of two.

  \<^item> \<open>cal_temp\<close>: 25.00f is 25;
  \<^item> \<open>min_temp\<close>: 3.30f is 13841203 / 2^22;
  \<^item> \<open>max_temp\<close>: 41.18f is 5397545 / 2^17;
  \<^item> \<open>x3_temp[0]\<close>: 0.0000002037008925981353968f is 447943 / 2^41;
  \<^item> \<open>x2_temp[0]\<close>: -0.0000053157482398091815412f is -5844727 / 2^40;
  \<^item> \<open>x1_temp[0]\<close>: -0.0008966009481810033321380f is -15403487 / 2^34;
  \<^item> \<open>x3_temp[1]\<close>: -0.0000000252839047476527412f is -14233573 / 2^49;
  \<^item> \<open>x2_temp[1]\<close>: -0.0000029153295599826378747f is -12821755 / 2^42;
  \<^item> \<open>x1_temp[1]\<close>: 0.0003352015919517725706100f is 11517439 / 2^35;
  \<^item> \<open>x3_temp[2]\<close>: 0.0000000083432984965270406f is 9393719 / 2^50;
  \<^item> \<open>x2_temp[2]\<close>: 0.0000064743926486698910593f is 3559335 / 2^39;
  \<^item> \<open>x1_temp[2]\<close>: -0.0014722041087225079536437f is -12646137 / 2^33.
\<close>

definition matlab_estimations :: "mag_scale \<Rightarrow> mag_scale" where
  "matlab_estimations mscale =
     mscale\<lparr> cal_temp := Finite 25,
             min_temp := Finite (13841203 / 2 ^ 22),
             max_temp := Finite (5397545 / 2 ^ 17),
             x3_temp := (Finite (447943 / 2 ^ 41),
                         Finite (- (14233573 / 2 ^ 49)),
                         Finite (9393719 / 2 ^ 50)),
             x2_temp := (Finite (- (5844727 / 2 ^ 40)),
                         Finite (- (12821755 / 2 ^ 42)),
                         Finite (3559335 / 2 ^ 39)),
             x1_temp := (Finite (- (15403487 / 2 ^ 34)),
                         Finite (11517439 / 2 ^ 35),
                         Finite (- (12646137 / 2 ^ 33))) \<rparr>"

definition temp_terms :: "32 word \<Rightarrow> mag_scale \<Rightarrow> mag_scale" where
  "temp_terms device_id mscale =
     (if device_id = 131594 then matlab_estimations mscale else mscale)"

text \<open>
  Lines 335-363: the parameter names and the values written under them, in the order
  of the calls.
\<close>

definition param_writes :: "nat \<Rightarrow> 32 word \<Rightarrow> mag_scale \<Rightarrow> (string \<times> pvalue) list" where
  "param_writes s device_id mscale =
     [(''CAL_MAG'' @ dec s @ ''_ID'', PUInt device_id),
      (''CAL_MAG'' @ dec s @ ''_XOFF'', PFloat (x_offset mscale)),
      (''CAL_MAG'' @ dec s @ ''_YOFF'', PFloat (y_offset mscale)),
      (''CAL_MAG'' @ dec s @ ''_ZOFF'', PFloat (z_offset mscale)),
      (''CAL_MAG'' @ dec s @ ''_XSCALE'', PFloat (x_scale mscale)),
      (''CAL_MAG'' @ dec s @ ''_YSCALE'', PFloat (y_scale mscale)),
      (''CAL_MAG'' @ dec s @ ''_ZSCALE'', PFloat (z_scale mscale)),
      (''CAL_MAG'' @ dec s @ ''_TMPNOM'', PFloat (cal_temp mscale)),
      (''CAL_MAG'' @ dec s @ ''_TMPMIN'', PFloat (min_temp mscale)),
      (''CAL_MAG'' @ dec s @ ''_TMPMAX'', PFloat (max_temp mscale))] @
     concat (map (\<lambda>j.
       [(''CAL_MAG'' @ dec s @ ''_TA'' @ dec j @ ''X0'', PFloat (idx3 (x1_temp mscale) j)),
        (''CAL_MAG'' @ dec s @ ''_TA'' @ dec j @ ''X1'', PFloat (idx3 (x2_temp mscale) j)),
        (''CAL_MAG'' @ dec s @ ''_TA'' @ dec j @ ''X2'', PFloat (idx3 (x3_temp mscale) j))])
       [0..<3])"

text \<open>
  \<open>failed |= (OK != param_set(...))\<close>, once for each write: the flag and the calls.
\<close>

fun set_params ::
  "(string \<Rightarrow> pvalue \<Rightarrow> int) \<Rightarrow> (string \<times> pvalue) list \<Rightarrow> bool \<Rightarrow> bool \<times> event list" where
  "set_params ps [] failed = (failed, [])"
| "set_params ps ((name, v) # ws) failed =
     (case set_params ps ws (failed \<or> OK \<noteq> ps name v) of
       (failed', evs) \<Rightarrow> (failed', ParamSet name v (ps name v) # evs))"

text \<open>Lines 285-377: the apply phase, entered with \<open>res == OK\<close>.\<close>

definition apply_phase ::
  "inst_env \<Rightarrow> nat \<Rightarrow> 32 word \<Rightarrow> float \<times> float \<times> float \<Rightarrow> int \<times> event list" where
  "apply_phase e s device_id c =
     (case read_and_apply e s c of (res1, mscale, evs1) \<Rightarrow>
       (if res1 = OK then
          (case set_params (param_set e)
                  (param_writes s device_id (temp_terms device_id mscale)) False of
            (failed, evs2) \<Rightarrow>
              (if failed then ERROR else res1,
               evs1 @ evs2 @
               (if failed then [Critical CAL_FAILED_SET_PARAMS_MSG] else []) @
               [Info (CAL_PROGRESS_MSG 90),
                Info (Text ''mag off: x:%.2f y:%.2f z:%.2f Ga''),
                Info (Text ''mag scale: x:%.2f y:%.2f z:%.2f'')]))
        else
          (res1,
           evs1 @
           [Info (Text ''mag off: x:%.2f y:%.2f z:%.2f Ga''),
            Info (Text ''mag scale: x:%.2f y:%.2f z:%.2f'')])))"

definition calibrate_instance :: "env \<Rightarrow> nat \<Rightarrow> 32 word \<Rightarrow> int \<times> event list" where
  "calibrate_instance g s device_id =
     (let e = inst g s in
      if x_null e \<or> y_null e \<or> z_null e then
        (ERROR, [Info (CAL_PROGRESS_MSG 20), Critical (Text ''ERROR: out of memory'')])
      else
        (let a = acquire e s in
         case fit_phase g e s a of (res2, c, evs2) \<Rightarrow>
           if res2 = OK then
             (case apply_phase e s device_id c of (res3, evs3) \<Rightarrow>
               (res3, [Info (CAL_PROGRESS_MSG 20)] @ acq_log a @ evs2 @ evs3))
           else (res2, [Info (CAL_PROGRESS_MSG 20)] @ acq_log a @ evs2)))"

subsection \<open>\<open>do_mag_calibration\<close>, lines 68-156\<close>

definition max_mags :: nat where
  "max_mags = 3"

text \<open>
  One pass of the loop body, lines 95-136, on the variables that live across passes:
  \<open>res\<close>, \<open>calibrated_ok\<close> and the events so far.
\<close>

definition instance_step :: "env \<Rightarrow> nat \<Rightarrow> int \<times> nat \<times> event list \<Rightarrow> int \<times> nat \<times> event list" where
  "instance_step g s st =
     (case st of (res0, calibrated_ok, evs) \<Rightarrow>
       (let e = inst g s in
        if open_fd e < 0 then (res0, calibrated_ok, evs @ [Open s])
        else
          (let evs1 = evs @ [Open s, Info (Text ''Calibrating magnetometer #%u..''),
                             GetDeviceId s, SetScale s mscale_null] @
                      (if reset_ret e \<noteq> OK then [Critical CAL_FAILED_RESET_CAL_MSG] else []);
               res1 = reset_ret e;
               (res2, evs2) =
                 (if res1 = OK then
                    (if calibrate_ret e \<noteq> OK
                     then (OK, evs1 @ [Calibrate s, Info (Text ''Skipped scale calibration'')])
                     else (calibrate_ret e, evs1 @ [Calibrate s]))
                  else (res1, evs1))
           in
           if res2 = OK then
             (case calibrate_instance g s (device_id_ret e) of (res3, evs3) \<Rightarrow>
               (res3, if res3 = OK then calibrated_ok + 1 else calibrated_ok, evs2 @ evs3))
           else (res2, calibrated_ok, evs2))))"

text \<open>The \<open>for\<close> loop, line 93: \<open>s\<close> from 0 while \<open>s < max_mags\<close>, no \<open>break\<close>.\<close>

definition mag_loop :: "env \<Rightarrow> int \<times> nat \<times> event list" where
  "mag_loop g = fold (instance_step g) [0..<max_mags] (ERROR, 0, [Info CAL_STARTED_MSG])"

definition do_mag_calibration :: "env \<Rightarrow> int \<times> event list" where
  "do_mag_calibration g =
     (case mag_loop g of (res0, calibrated_ok, evs) \<Rightarrow>
       if calibrated_ok \<noteq> 0 then
         (param_save_default g,
          evs @ [Info (CAL_PROGRESS_MSG 100), Info CAL_DONE_MSG, ParamSave] @
          (if param_save_default g \<noteq> OK then [Critical CAL_FAILED_SAVE_PARAMS_MSG] else []))
       else (res0, evs @ [Critical CAL_FAILED_MSG]))"

subsection \<open>Reading a run\<close>

text \<open>
  The loop condition of line 217-218, and the number of polls among the polls \<open>i\<close>
  to \<open>j - 1\<close> that delivered no sample (\<open>poll_ret <= 0\<close>) or a sample.
\<close>

definition loop_cond :: "inst_env \<Rightarrow> 64 word \<Rightarrow> acq \<Rightarrow> bool" where
  "loop_cond e d st \<longleftrightarrow>
     loop_time e (polls st) < d \<and> calibration_counter st < calibration_maxcount"

definition failed_polls :: "inst_env \<Rightarrow> nat \<Rightarrow> nat \<Rightarrow> nat" where
  "failed_polls e i j = length (filter (\<lambda>k. poll_ret e k \<le> 0) [i..<j])"

definition good_polls :: "inst_env \<Rightarrow> nat \<Rightarrow> nat \<Rightarrow> nat" where
  "good_polls e i j = length (filter (\<lambda>k. 0 < poll_ret e k) [i..<j])"

text \<open>The \<open>param_set\<close> calls of a list of events: name and value, in order.\<close>

fun param_call :: "event \<Rightarrow> (string \<times> pvalue) list" where
  "param_call (ParamSet name v r) = [(name, v)]"
| "param_call _ = []"

definition param_calls :: "event list \<Rightarrow> (string \<times> pvalue) list" where
  "param_calls evs = concat (map param_call evs)"

text \<open>The calls of \<open>sphere_fit_least_squares\<close> in a list of events.\<close>

fun is_fit :: "event \<Rightarrow> bool" where
  "is_fit (SphereFit s xa ya za n) = True"
| "is_fit _ = False"

text \<open>The scale structs written to a device (MAGIOCSSCALE) in a list of events.\<close>

fun scale_write :: "event \<Rightarrow> (nat \<times> mag_scale) list" where
  "scale_write (SetScale s m) = [(s, m)]"
| "scale_write _ = []"

definition scale_writes :: "event list \<Rightarrow> (nat \<times> mag_scale) list" where
  "scale_writes evs = concat (map scale_write evs)"

text \<open>
  What one pass of the loop of \<open>do_mag_calibration\<close> adds for instance \<open>s\<close>: its
  events, and whether it counts the instance as calibrated.
\<close>

definition instance_events :: "env \<Rightarrow> nat \<Rightarrow> event list" where
  "instance_events g s = snd (snd (instance_step g s (ERROR, 0, [])))"

definition instance_ok :: "env \<Rightarrow> nat \<Rightarrow> bool" where
  "instance_ok g s \<longleftrightarrow>
     0 \<le> open_fd (inst g s) \<and> reset_ret (inst g s) = OK \<and>
     fst (calibrate_instance g s (device_id_ret (inst g s))) = OK"

text \<open>The messages to the operator.\<close>

fun is_message :: "event \<Rightarrow> bool" where
  "is_message (Info m) = True"
| "is_message (Critical m) = True"
| "is_message _ = False"

text \<open>
  Inside \<open>calibrate_instance\<close> for instance \<open>s\<close>: \<open>res\<close> and the content of
  \<open>sphere_x\<close>, \<open>sphere_y\<close>, \<open>sphere_z\<close> at line 285, whether the parameter writes of
  lines 333-363 are reached, and a scale struct with its offsets replaced.
\<close>

definition res_after_fit :: "env \<Rightarrow> nat \<Rightarrow> int" where
  "res_after_fit g s = fst (fit_phase g (inst g s) s (acquire (inst g s) s))"

definition sphere_centre :: "env \<Rightarrow> nat \<Rightarrow> float \<times> float \<times> float" where
  "sphere_centre g s = fst (snd (fit_phase g (inst g s) s (acquire (inst g s) s)))"

definition param_phase_reached :: "env \<Rightarrow> nat \<Rightarrow> bool" where
  "param_phase_reached g s \<longleftrightarrow>
     \<not> x_null (inst g s) \<and> \<not> y_null (inst g s) \<and> \<not> z_null (inst g s) \<and>
     res_after_fit g s = OK \<and>
     get_scale_ret (inst g s) = OK \<and> apply_ret (inst g s) = OK"

definition with_offsets :: "mag_scale \<Rightarrow> float \<times> float \<times> float \<Rightarrow> mag_scale" where
  "with_offsets m c =
     (case c of (cx, cy, cz) \<Rightarrow> m\<lparr> x_offset := cx, y_offset := cy, z_offset := cz \<rparr>)"

text \<open>The environment \<open>g\<close> with other answers of \<open>param_set\<close> for instance \<open>s\<close>.\<close>

definition with_param_set :: "env \<Rightarrow> nat \<Rightarrow> (string \<Rightarrow> pvalue \<Rightarrow> int) \<Rightarrow> env" where
  "with_param_set g s ps = g\<lparr> inst := (inst g)(s := (inst g s)\<lparr> param_set := ps \<rparr>) \<rparr>"

text \<open>The environment \<open>g\<close> with another answer of the range calibration of device \<open>s\<close>.\<close>

definition with_calibrate_ret :: "env \<Rightarrow> nat \<Rightarrow> int \<Rightarrow> env" where
  "with_calibrate_ret g s r = g\<lparr> inst := (inst g)(s := (inst g s)\<lparr> calibrate_ret := r \<rparr>) \<rparr>"

text \<open>
  The index of the instance an event addresses: the device it opens or controls, the
  uORB instance it subscribes to, the instance whose samples are fitted.
\<close>

fun event_instance :: "event \<Rightarrow> nat list" where
  "event_instance (Open s) = [s]"
| "event_instance (GetDeviceId s) = [s]"
| "event_instance (SetScale s m) = [s]"
| "event_instance (Calibrate s) = [s]"
| "event_instance (Subscribe s) = [s]"
| "event_instance (SphereFit s xa ya za n) = [s]"
| "event_instance (GetScale s) = [s]"
| "event_instance _ = []"

definition addressed :: "event list \<Rightarrow> nat list" where
  "addressed evs = concat (map event_instance evs)"

text \<open>The 19 parameter names of instance \<open>s\<close>.\<close>

definition instance_keys :: "nat \<Rightarrow> string list" where
  "instance_keys s = map fst (param_writes s 0 mscale_null)"

subsection \<open>Concrete environments\<close>

text \<open>
  A device that answers every call with success, whose 1001 first polls but one
  time out: poll 1000 delivers a sample.
\<close>

definition e_intermittent :: inst_env where
  "e_intermittent =
     \<lparr> open_fd = 3, device_id_ret = 42, reset_ret = OK, calibrate_ret = OK,
       x_null = False, y_null = False, z_null = False, subscribe_ret = 4,
       time0 = 0, loop_time = (\<lambda>k. 0),
       poll_ret = (\<lambda>k. if k = 1000 then 1 else 0),
       mag_report = (\<lambda>k. (Finite 1, Finite 2, Finite 3)),
       uninit_sphere = (Finite 0, Finite 0, Finite 0),
       get_scale_ret = OK, get_scale_val = mscale_null, apply_ret = OK,
       param_set = (\<lambda>name v. OK) \<rparr>"

text \<open>
  A device that answers every call with success and delivers a sample at every poll
  well before the deadline; the sphere fit of \<open>g_healthy\<close> returns the centre
  (100, -50, 30).
\<close>

definition e_healthy :: inst_env where
  "e_healthy =
     \<lparr> open_fd = 3, device_id_ret = 131594, reset_ret = OK, calibrate_ret = OK,
       x_null = False, y_null = False, z_null = False, subscribe_ret = 4,
       time0 = 0, loop_time = (\<lambda>k. 0),
       poll_ret = (\<lambda>k. 1),
       mag_report = (\<lambda>k. (Finite 1, Finite 2, Finite 3)),
       uninit_sphere = (Finite 7, Finite 8, Finite 9),
       get_scale_ret = OK, get_scale_val = mscale_null, apply_ret = OK,
       param_set = (\<lambda>name v. OK) \<rparr>"

definition g_healthy :: env where
  "g_healthy =
     \<lparr> inst = (\<lambda>s. e_healthy),
       sphere_fit_least_squares = (\<lambda>xa ya za n. (Finite 100, Finite (- 50), Finite 30)),
       param_save_default = OK \<rparr>"

text \<open>The same device, with \<open>param_set\<close> failing on the key CAL_MAG0_YOFF only.\<close>

definition e_yoff_fails :: inst_env where
  "e_yoff_fails =
     e_healthy\<lparr> param_set := (\<lambda>name v. if name = ''CAL_MAG0_YOFF'' then ERROR else OK) \<rparr>"

definition g_yoff_fails :: env where
  "g_yoff_fails =
     \<lparr> inst = (\<lambda>s. e_yoff_fails),
       sphere_fit_least_squares = (\<lambda>xa ya za n. (Finite 100, Finite (- 50), Finite 30)),
       param_save_default = OK \<rparr>"

text \<open>
  The healthy device with a clock that has passed the deadline at the first
  evaluation of the loop condition (no sample is collected), and one with a clock
  that passes it after the first sample; the locals \<open>sphere_x\<close>, \<open>sphere_y\<close>,
  \<open>sphere_z\<close> of the latter hold a NaN, an infinity and 7 before any assignment.
\<close>

definition e_nosamples :: inst_env where
  "e_nosamples = e_healthy\<lparr> loop_time := (\<lambda>k. 25000000) \<rparr>"

definition g_nosamples :: env where
  "g_nosamples =
     \<lparr> inst = (\<lambda>s. e_nosamples),
       sphere_fit_least_squares = (\<lambda>xa ya za n. (Finite 100, Finite (- 50), Finite 30)),
       param_save_default = OK \<rparr>"

definition e_onesample :: inst_env where
  "e_onesample = e_healthy\<lparr> loop_time := (\<lambda>k. if k = 0 then 0 else 25000000),
                             uninit_sphere := (NaN, PlusInf, Finite 7) \<rparr>"

definition g_onesample :: env where
  "g_onesample =
     \<lparr> inst = (\<lambda>s. e_onesample),
       sphere_fit_least_squares = (\<lambda>xa ya za n. (Finite 100, Finite (- 50), Finite 30)),
       param_save_default = OK \<rparr>"

text \<open>
  A slot with no device (\<open>open\<close> fails). Two runs with the healthy device at
  index 0 alone, where \<open>param_save_default\<close> fails with \<open>ERROR\<close> and with 22; and one
  where the reset of the scale of device 0 fails.
\<close>

definition e_absent :: inst_env where
  "e_absent = e_healthy\<lparr> open_fd := - 1 \<rparr>"

definition g_persist_fails :: env where
  "g_persist_fails =
     \<lparr> inst = (\<lambda>s. if s = 0 then e_healthy else e_absent),
       sphere_fit_least_squares = (\<lambda>xa ya za n. (Finite 100, Finite (- 50), Finite 30)),
       param_save_default = ERROR \<rparr>"

definition g_persist_22 :: env where
  "g_persist_22 =
     \<lparr> inst = (\<lambda>s. if s = 0 then e_healthy else e_absent),
       sphere_fit_least_squares = (\<lambda>xa ya za n. (Finite 100, Finite (- 50), Finite 30)),
       param_save_default = 22 \<rparr>"

definition g_reset_fails :: env where
  "g_reset_fails =
     \<lparr> inst = (\<lambda>s. if s = 0 then e_healthy\<lparr> reset_ret := ERROR \<rparr> else e_absent),
       sphere_fit_least_squares = (\<lambda>xa ya za n. (Finite 100, Finite (- 50), Finite 30)),
       param_save_default = OK \<rparr>"

text \<open>A run where the range calibration of the healthy device 0 fails.\<close>

definition g_range_fails :: env where
  "g_range_fails =
     \<lparr> inst = (\<lambda>s. if s = 0 then e_healthy\<lparr> calibrate_ret := ERROR \<rparr> else e_absent),
       sphere_fit_least_squares = (\<lambda>xa ya za n. (Finite 100, Finite (- 50), Finite 30)),
       param_save_default = OK \<rparr>"

text \<open>
  A device whose polls all time out, and the run of the partial failure: that
  device at index 0, the healthy device at index 1, no device at index 2.
\<close>

definition e_timeout :: inst_env where
  "e_timeout = e_healthy\<lparr> poll_ret := (\<lambda>k. 0) \<rparr>"

definition g_partial :: env where
  "g_partial =
     \<lparr> inst = (\<lambda>s. if s = 0 then e_timeout else if s = 1 then e_healthy else e_absent),
       sphere_fit_least_squares = (\<lambda>xa ya za n. (Finite 100, Finite (- 50), Finite 30)),
       param_save_default = OK \<rparr>"

section \<open>The acquisition loop\<close>

lemma poll_step_polls: "polls (poll_step e st) = polls st + 1"
  by (simp add: poll_step_def split: prod.splits)

lemma poll_step_errcount:
  "poll_errcount (poll_step e st) =
     poll_errcount st + (if poll_ret e (polls st) \<le> 0 then 1 else 0)"
  by (simp add: poll_step_def split: prod.splits)

lemma poll_step_counter:
  "calibration_counter (poll_step e st) =
     calibration_counter st + (if 0 < poll_ret e (polls st) then 1 else 0)"
  by (simp add: poll_step_def split: prod.splits)

lemma poll_step_res: "acq_res (poll_step e st) = acq_res st"
  by (simp add: poll_step_def split: prod.splits)

lemma acquire_loop_exit: "\<not> loop_cond e d st \<Longrightarrow> acquire_loop e d st = st"
  by (subst acquire_loop.simps) (auto simp: loop_cond_def)

lemma acquire_loop_abort:
  "loop_cond e d st \<Longrightarrow> 1000 < poll_errcount (poll_step e st) \<Longrightarrow>
   acquire_loop e d st =
     (poll_step e st)\<lparr> acq_res := ERROR,
        acq_log := acq_log (poll_step e st) @ [Critical CAL_FAILED_SENSOR_MSG] \<rparr>"
  by (subst acquire_loop.simps) (simp add: loop_cond_def Let_def)

lemma acquire_loop_cont:
  "loop_cond e d st \<Longrightarrow> \<not> 1000 < poll_errcount (poll_step e st) \<Longrightarrow>
   acquire_loop e d st = acquire_loop e d (poll_step e st)"
  by (subst acquire_loop.simps) (simp add: loop_cond_def Let_def)

lemma acquire_loop_induct [consumes 0, case_names exit abort cont]:
  assumes "\<And>st. \<not> loop_cond e d st \<Longrightarrow> P st"
    and "\<And>st. loop_cond e d st \<Longrightarrow> 1000 < poll_errcount (poll_step e st) \<Longrightarrow> P st"
    and "\<And>st. loop_cond e d st \<Longrightarrow> \<not> 1000 < poll_errcount (poll_step e st) \<Longrightarrow>
           P (poll_step e st) \<Longrightarrow> P st"
  shows "P st"
  using assms
proof (induction e d st rule: acquire_loop.induct)
  case (1 e d st)
  show ?case
  proof (cases "loop_cond e d st")
    case False
    then show ?thesis using "1.prems"(1) by blast
  next
    case c: True
    show ?thesis
    proof (cases "1000 < poll_errcount (poll_step e st)")
      case True
      with c show ?thesis using "1.prems"(2) by blast
    next
      case False
      have "P (poll_step e st)"
        using c "1.prems" by (intro "1.IH" [OF _ refl False]) (auto simp: loop_cond_def)
      with c False show ?thesis using "1.prems"(3) by blast
    qed
  qed
qed

lemma acquire_loop_polls_mono: "polls st \<le> polls (acquire_loop e d st)"
proof (induction st rule: acquire_loop_induct [of e d])
  case (exit st)
  then show ?case by (simp add: acquire_loop_exit)
next
  case (abort st)
  then show ?case by (simp add: acquire_loop_abort poll_step_polls)
next
  case (cont st)
  then show ?case by (simp add: acquire_loop_cont poll_step_polls)
qed

lemma failed_polls_step:
  "i < j \<Longrightarrow> failed_polls e i j = (if poll_ret e i \<le> 0 then 1 else 0) + failed_polls e (Suc i) j"
  by (simp add: failed_polls_def upt_conv_Cons)

lemma good_polls_step:
  "i < j \<Longrightarrow> good_polls e i j = (if 0 < poll_ret e i then 1 else 0) + good_polls e (Suc i) j"
  by (simp add: good_polls_def upt_conv_Cons)

lemma failed_polls_one: "failed_polls e i (Suc i) = (if poll_ret e i \<le> 0 then 1 else 0)"
  by (simp add: failed_polls_def)

lemma good_polls_one: "good_polls e i (Suc i) = (if 0 < poll_ret e i then 1 else 0)"
  by (simp add: good_polls_def)

lemma acquire_loop_errcount:
  "poll_errcount (acquire_loop e d st) =
     poll_errcount st + failed_polls e (polls st) (polls (acquire_loop e d st))"
proof (induction st rule: acquire_loop_induct [of e d])
  case (exit st)
  then show ?case by (simp add: acquire_loop_exit failed_polls_def)
next
  case (abort st)
  then show ?case
    by (simp add: acquire_loop_abort poll_step_polls poll_step_errcount failed_polls_one)
next
  case (cont st)
  have lt: "polls st < polls (acquire_loop e d (poll_step e st))"
    using acquire_loop_polls_mono [of "poll_step e st" e d] by (simp add: poll_step_polls)
  show ?case
    using cont
    by (simp add: acquire_loop_cont failed_polls_step [OF lt] poll_step_errcount poll_step_polls)
qed

lemma acquire_loop_counter:
  "calibration_counter (acquire_loop e d st) =
     calibration_counter st + good_polls e (polls st) (polls (acquire_loop e d st))"
proof (induction st rule: acquire_loop_induct [of e d])
  case (exit st)
  then show ?case by (simp add: acquire_loop_exit good_polls_def)
next
  case (abort st)
  then show ?case
    by (simp add: acquire_loop_abort poll_step_polls poll_step_counter good_polls_one)
next
  case (cont st)
  have lt: "polls st < polls (acquire_loop e d (poll_step e st))"
    using acquire_loop_polls_mono [of "poll_step e st" e d] by (simp add: poll_step_polls)
  show ?case
    using cont
    by (simp add: acquire_loop_cont good_polls_step [OF lt] poll_step_counter poll_step_polls)
qed

lemma acquire_loop_res:
  "acq_res st = OK \<Longrightarrow> poll_errcount st \<le> 1000 \<Longrightarrow>
   (acq_res (acquire_loop e d st) = ERROR \<longleftrightarrow> 1000 < poll_errcount (acquire_loop e d st)) \<and>
   (acq_res (acquire_loop e d st) = OK \<longleftrightarrow> poll_errcount (acquire_loop e d st) \<le> 1000) \<and>
   poll_errcount (acquire_loop e d st) \<le> 1001"
proof (induction st rule: acquire_loop_induct [of e d])
  case (exit st)
  then show ?case by (simp add: acquire_loop_exit OK_def ERROR_def)
next
  case (abort st)
  then show ?case
    by (simp add: acquire_loop_abort poll_step_errcount OK_def ERROR_def split: if_splits)
next
  case (cont st)
  then show ?case
    by (simp add: acquire_loop_cont poll_step_res)
qed

lemma acquire_loop_bound:
  "calibration_counter st \<le> calibration_maxcount \<Longrightarrow>
   calibration_counter (acquire_loop e d st) \<le> calibration_maxcount"
proof (induction st rule: acquire_loop_induct [of e d])
  case (exit st)
  then show ?case by (simp add: acquire_loop_exit)
next
  case (abort st)
  then show ?case
    by (simp add: acquire_loop_abort poll_step_counter loop_cond_def)
next
  case (cont st)
  then show ?case
    by (simp add: acquire_loop_cont poll_step_counter loop_cond_def)
qed

lemma acquire_loop_failures:
  "(\<forall>k. polls st \<le> k \<and> k < polls st + n \<longrightarrow> loop_time e k < d \<and> poll_ret e k \<le> 0) \<Longrightarrow>
   poll_errcount st + n \<le> 1000 \<Longrightarrow>
   calibration_counter st < calibration_maxcount \<Longrightarrow>
   acquire_loop e d st =
     acquire_loop e d (st\<lparr> poll_errcount := poll_errcount st + n, polls := polls st + n \<rparr>)"
proof (induction n arbitrary: st)
  case 0
  then show ?case by simp
next
  case (Suc n)
  let ?st1 = "poll_step e st"
  have here: "loop_time e (polls st) < d" "poll_ret e (polls st) \<le> 0"
    using Suc.prems(1) by auto
  have st1: "?st1 = st\<lparr> poll_errcount := poll_errcount st + 1, polls := polls st + 1 \<rparr>"
    using here by (simp add: poll_step_def)
  have c: "loop_cond e d st"
    using here Suc.prems(3) by (simp add: loop_cond_def)
  have n: "\<not> 1000 < poll_errcount ?st1"
    using Suc.prems(2) by (simp add: st1)
  have "acquire_loop e d ?st1 =
          acquire_loop e d (?st1\<lparr> poll_errcount := poll_errcount ?st1 + n,
                                   polls := polls ?st1 + n \<rparr>)"
    using Suc.prems by (intro Suc.IH) (auto simp: st1)
  then show ?case
    by (simp add: acquire_loop_cont [OF c n] st1)
qed

text \<open>
  The counters of an acquisition stay below 241 and 1002: the \<open>unsigned\<close> counters of
  the source never wrap.
\<close>

lemma acquire_counters_bounded:
  "calibration_counter (acquire e s) \<le> calibration_maxcount \<and> poll_errcount (acquire e s) \<le> 1001"
  using acquire_loop_bound [of _ e "time0 e + calibration_interval"]
    acquire_loop_res [of _ e "time0 e + calibration_interval"]
  by (simp add: acquire_def)

lemma good_polls_empty [simp]: "good_polls e i i = 0"
  by (simp add: good_polls_def)

lemma failed_polls_empty [simp]: "failed_polls e i i = 0"
  by (simp add: failed_polls_def)

lemma acquire_loop_polls_needed:
  "poll_errcount st \<le> 1000 \<Longrightarrow> polls st \<le> k \<Longrightarrow> k < polls (acquire_loop e d st) \<Longrightarrow>
   loop_time e k < d
   \<and> calibration_counter st + good_polls e (polls st) k < calibration_maxcount
   \<and> poll_errcount st + failed_polls e (polls st) k \<le> 1000"
proof (induction st rule: acquire_loop_induct [of e d])
  case (exit st)
  then show ?case by (simp add: acquire_loop_exit)
next
  case (abort st)
  then have "k = polls st"
    by (simp add: acquire_loop_abort poll_step_polls)
  with abort show ?case by (simp add: loop_cond_def)
next
  case (cont st)
  show ?case
  proof (cases "k = polls st")
    case True
    with cont show ?thesis by (simp add: loop_cond_def)
  next
    case False
    then have lt: "polls st < k" using cont.prems by simp
    have "loop_time e k < d
      \<and> calibration_counter (poll_step e st) + good_polls e (polls (poll_step e st)) k
          < calibration_maxcount
      \<and> poll_errcount (poll_step e st) + failed_polls e (polls (poll_step e st)) k \<le> 1000"
      using cont lt by (intro cont.IH) (simp_all add: acquire_loop_cont poll_step_polls)
    then show ?thesis
      by (simp add: poll_step_polls poll_step_counter poll_step_errcount
            good_polls_step [OF lt] failed_polls_step [OF lt] add.assoc)
  qed
qed

lemma poll_step_no_sensor_msg:
  "Critical CAL_FAILED_SENSOR_MSG \<notin> set (acq_log st) \<Longrightarrow>
   Critical CAL_FAILED_SENSOR_MSG \<notin> set (acq_log (poll_step e st))"
  by (simp add: poll_step_def split: prod.splits)

lemma acquire_loop_end:
  "acq_res st = OK \<Longrightarrow> poll_errcount st \<le> 1000 \<Longrightarrow>
   Critical CAL_FAILED_SENSOR_MSG \<notin> set (acq_log st) \<Longrightarrow>
   (if 1000 < poll_errcount (acquire_loop e d st)
    then acq_res (acquire_loop e d st) = ERROR
       \<and> last (acq_log (acquire_loop e d st)) = Critical CAL_FAILED_SENSOR_MSG
    else acq_res (acquire_loop e d st) = OK
       \<and> Critical CAL_FAILED_SENSOR_MSG \<notin> set (acq_log (acquire_loop e d st))
       \<and> \<not> loop_cond e d (acquire_loop e d st))"
proof (induction st rule: acquire_loop_induct [of e d])
  case (exit st)
  then show ?case by (simp add: acquire_loop_exit)
next
  case (abort st)
  then show ?case by (simp add: acquire_loop_abort)
next
  case (cont st)
  then show ?case
    by (simp add: acquire_loop_cont poll_step_res poll_step_no_sensor_msg)
qed

lemma intermittent_acquire:
  "acq_res (acquire e_intermittent 0) = ERROR
   \<and> poll_errcount (acquire e_intermittent 0) = 1001
   \<and> polls (acquire e_intermittent 0) = 1002
   \<and> calibration_counter (acquire e_intermittent 0) = 1"
proof -
  let ?e = e_intermittent
  let ?d = "time0 ?e + calibration_interval"
  let ?st0 = "\<lparr> calibration_counter = 0, poll_errcount = 0, x_arr = [], y_arr = [], z_arr = [],
            acq_res = OK, polls = 0,
            acq_log = [Subscribe 0,
                   Info (Text ''Turn on all sides: front/back,left/right,up/down'')] \<rparr>"
  let ?st1 = "?st0\<lparr> poll_errcount := 1000, polls := 1000 \<rparr>"
  have d: "?d = 25000000"
    by (simp add: e_intermittent_def calibration_interval_def)
  have a: "acquire ?e 0 = acquire_loop ?e ?d ?st0"
    by (simp add: acquire_def e_intermittent_def)
  have "acquire_loop ?e ?d ?st0 = acquire_loop ?e ?d ?st1"
    using acquire_loop_failures [of ?st0 1000 ?e ?d]
    by (simp add: d) (simp add: e_intermittent_def calibration_maxcount_def)
  also have "\<dots> = acquire_loop ?e ?d (poll_step ?e ?st1)"
    by (rule acquire_loop_cont)
       (simp_all add: d loop_cond_def poll_step_def calibration_maxcount_def
          calibration_interval_def e_intermittent_def)
  also have "\<dots> = (poll_step ?e (poll_step ?e ?st1))
       \<lparr> acq_res := ERROR,
         acq_log := acq_log (poll_step ?e (poll_step ?e ?st1)) @ [Critical CAL_FAILED_SENSOR_MSG] \<rparr>"
    by (rule acquire_loop_abort)
       (simp_all add: d loop_cond_def poll_step_def calibration_maxcount_def
          calibration_interval_def e_intermittent_def)
  finally show ?thesis
    by (simp add: a) (simp add: poll_step_def e_intermittent_def)
qed

section \<open>The events of one instance\<close>

lemma param_calls_simps [simp]:
  "param_calls [] = []"
  "param_calls (ev # evs) = param_call ev @ param_calls evs"
  "param_calls (evs @ evs') = param_calls evs @ param_calls evs'"
  by (simp_all add: param_calls_def)

lemma scale_writes_simps [simp]:
  "scale_writes [] = []"
  "scale_writes (ev # evs) = scale_write ev @ scale_writes evs"
  "scale_writes (evs @ evs') = scale_writes evs @ scale_writes evs'"
  by (simp_all add: scale_writes_def)

lemma messages_no_param_calls: "list_all is_message ms \<Longrightarrow> param_calls ms = []"
proof (induction ms)
  case Nil
  then show ?case by simp
next
  case (Cons m ms)
  then show ?case by (cases m) simp_all
qed

lemma messages_no_scale_writes: "list_all is_message ms \<Longrightarrow> scale_writes ms = []"
proof (induction ms)
  case Nil
  then show ?case by simp
next
  case (Cons m ms)
  then show ?case by (cases m) simp_all
qed

lemma messages_no_fit: "list_all is_message ms \<Longrightarrow> filter is_fit ms = []"
proof (induction ms)
  case Nil
  then show ?case by simp
next
  case (Cons m ms)
  then show ?case by (cases m) simp_all
qed

lemma poll_step_log:
  "\<exists>ms. acq_log (poll_step e st) = acq_log st @ ms \<and> list_all is_message ms"
  by (simp add: poll_step_def split: prod.splits)

lemma acquire_loop_log:
  "\<exists>ms. acq_log (acquire_loop e d st) = acq_log st @ ms \<and> list_all is_message ms"
proof (induction st rule: acquire_loop_induct [of e d])
  case (exit st)
  then show ?case by (simp add: acquire_loop_exit)
next
  case (abort st)
  obtain ms where "acq_log (poll_step e st) = acq_log st @ ms" "list_all is_message ms"
    using poll_step_log by blast
  then show ?case
    using abort by (simp add: acquire_loop_abort)
next
  case (cont st)
  obtain ms where ms: "acq_log (poll_step e st) = acq_log st @ ms" "list_all is_message ms"
    using poll_step_log by blast
  obtain ms' where ms': "acq_log (acquire_loop e d (poll_step e st)) = acq_log (poll_step e st) @ ms'"
      "list_all is_message ms'"
    using cont by blast
  have "acq_log (acquire_loop e d st) = acq_log st @ (ms @ ms')" "list_all is_message (ms @ ms')"
    using cont ms ms' by (simp_all add: acquire_loop_cont)
  then show ?case by blast
qed

lemma acquire_log:
  "\<exists>ms. acq_log (acquire e s) = Subscribe s # ms \<and> list_all is_message ms"
proof (cases "subscribe_ret e < 0")
  case True
  then show ?thesis by (simp add: acquire_def)
next
  case False
  let ?st0 = "\<lparr> calibration_counter = 0, poll_errcount = 0, x_arr = [], y_arr = [], z_arr = [],
            acq_res = OK, polls = 0,
            acq_log = [Subscribe s,
                   Info (Text ''Turn on all sides: front/back,left/right,up/down'')] \<rparr>"
  obtain ms where
    "acq_log (acquire_loop e (time0 e + calibration_interval) ?st0) = acq_log ?st0 @ ms"
    "list_all is_message ms"
    using acquire_loop_log by blast
  then show ?thesis
    using False by (simp add: acquire_def)
qed

lemma set_params_events:
  "snd (set_params ps ws failed) = map (\<lambda>(name, v). ParamSet name v (ps name v)) ws"
  by (induction ps ws failed rule: set_params.induct) (auto split: prod.splits)

lemma set_params_failed:
  "fst (set_params ps ws failed) \<longleftrightarrow> failed \<or> list_ex (\<lambda>(name, v). ps name v \<noteq> OK) ws"
  by (induction ps ws failed rule: set_params.induct) (auto split: prod.splits)

lemma param_calls_ParamSet:
  "param_calls (map (\<lambda>(name, v). ParamSet name v (ps name v)) ws) = ws"
  by (induction ws) (auto)

lemma scale_writes_ParamSet:
  "scale_writes (map (\<lambda>(name, v). ParamSet name v (ps name v)) ws) = []"
  by (induction ws) (auto)

lemma fit_ParamSet:
  "filter is_fit (map (\<lambda>(name, v). ParamSet name v (ps name v)) ws) = []"
  by (induction ws) (auto)

lemma fit_phase_no_param_calls: "param_calls (snd (snd (fit_phase g e s a))) = []"
  by (simp add: fit_phase_def split: prod.splits)

lemma fit_phase_no_scale_writes: "scale_writes (snd (snd (fit_phase g e s a))) = []"
  by (simp add: fit_phase_def split: prod.splits)

lemma fit_phase_fits:
  "filter is_fit (snd (snd (fit_phase g e s a))) =
     (if acq_res a = OK \<and> calibration_maxcount div 2 < calibration_counter a
      then [SphereFit s (x_arr a) (y_arr a) (z_arr a) (calibration_counter a)] else [])"
  by (simp add: fit_phase_def split: prod.splits)

lemma set_params_eq:
  "set_params ps ws failed =
     (failed \<or> list_ex (\<lambda>(name, v). ps name v \<noteq> OK) ws,
      map (\<lambda>(name, v). ParamSet name v (ps name v)) ws)"
  using set_params_events [of ps ws failed] set_params_failed [of ps ws failed]
  by (cases "set_params ps ws failed") simp

lemma apply_phase_param_calls:
  "param_calls (snd (apply_phase e s d c)) =
     (if get_scale_ret e = OK \<and> apply_ret e = OK
      then param_writes s d (temp_terms d (with_offsets (get_scale_val e) c)) else [])"
  by (cases c)
     (simp add: apply_phase_def read_and_apply_def with_offsets_def Let_def
        set_params_eq param_calls_ParamSet)

lemma apply_phase_scale_writes:
  "scale_writes (snd (apply_phase e s d c)) =
     (if get_scale_ret e = OK then [(s, with_offsets (get_scale_val e) c)] else [])"
  by (cases c)
     (simp add: apply_phase_def read_and_apply_def with_offsets_def Let_def
        set_params_eq scale_writes_ParamSet)

lemma apply_phase_no_fit: "filter is_fit (snd (apply_phase e s d c)) = []"
  by (cases c)
     (simp add: apply_phase_def read_and_apply_def Let_def set_params_eq fit_ParamSet)

lemma apply_phase_res:
  "fst (apply_phase e s d c) =
     (if get_scale_ret e \<noteq> OK then get_scale_ret e
      else if apply_ret e \<noteq> OK then apply_ret e
      else if list_ex (\<lambda>(name, v). param_set e name v \<noteq> OK)
                (param_writes s d (temp_terms d (with_offsets (get_scale_val e) c)))
           then ERROR else OK)"
  by (cases c)
     (simp add: apply_phase_def read_and_apply_def with_offsets_def Let_def set_params_eq)

lemma acquire_no_param_calls: "param_calls (acq_log (acquire e s)) = []"
  using acquire_log [of e s] by (auto simp: messages_no_param_calls)

lemma acquire_no_scale_writes: "scale_writes (acq_log (acquire e s)) = []"
  using acquire_log [of e s] by (auto simp: messages_no_scale_writes)

lemma acquire_no_fit: "filter is_fit (acq_log (acquire e s)) = []"
  using acquire_log [of e s] by (auto simp: messages_no_fit)

lemma calibrate_instance_unfold:
  "calibrate_instance g s d =
     (if x_null (inst g s) \<or> y_null (inst g s) \<or> z_null (inst g s) then
        (ERROR, [Info (CAL_PROGRESS_MSG 20), Critical (Text ''ERROR: out of memory'')])
      else if res_after_fit g s = OK then
        (fst (apply_phase (inst g s) s d (sphere_centre g s)),
         [Info (CAL_PROGRESS_MSG 20)] @ acq_log (acquire (inst g s) s) @
         snd (snd (fit_phase g (inst g s) s (acquire (inst g s) s))) @
         snd (apply_phase (inst g s) s d (sphere_centre g s)))
      else
        (res_after_fit g s,
         [Info (CAL_PROGRESS_MSG 20)] @ acq_log (acquire (inst g s) s) @
         snd (snd (fit_phase g (inst g s) s (acquire (inst g s) s)))))"
  by (simp add: calibrate_instance_def res_after_fit_def sphere_centre_def Let_def
        split: prod.splits)

lemma calibrate_instance_param_calls:
  "param_calls (snd (calibrate_instance g s d)) =
     (if param_phase_reached g s
      then param_writes s d
             (temp_terms d (with_offsets (get_scale_val (inst g s)) (sphere_centre g s)))
      else [])"
  by (simp add: calibrate_instance_unfold param_phase_reached_def acquire_no_param_calls
        fit_phase_no_param_calls apply_phase_param_calls)

lemma calibrate_instance_scale_writes:
  "scale_writes (snd (calibrate_instance g s d)) =
     (if \<not> x_null (inst g s) \<and> \<not> y_null (inst g s) \<and> \<not> z_null (inst g s) \<and>
         res_after_fit g s = OK \<and> get_scale_ret (inst g s) = OK
      then [(s, with_offsets (get_scale_val (inst g s)) (sphere_centre g s))]
      else [])"
  by (simp add: calibrate_instance_unfold acquire_no_scale_writes
        fit_phase_no_scale_writes apply_phase_scale_writes)

lemma calibrate_instance_fits:
  "filter is_fit (snd (calibrate_instance g s d)) =
     (if \<not> x_null (inst g s) \<and> \<not> y_null (inst g s) \<and> \<not> z_null (inst g s) \<and>
         acq_res (acquire (inst g s) s) = OK \<and>
         calibration_maxcount div 2 < calibration_counter (acquire (inst g s) s)
      then [SphereFit s (x_arr (acquire (inst g s) s)) (y_arr (acquire (inst g s) s))
              (z_arr (acquire (inst g s) s)) (calibration_counter (acquire (inst g s) s))]
      else [])"
  by (simp add: calibrate_instance_unfold acquire_no_fit fit_phase_fits apply_phase_no_fit)

lemma calibrate_instance_res:
  "fst (calibrate_instance g s d) =
     (if x_null (inst g s) \<or> y_null (inst g s) \<or> z_null (inst g s) then ERROR
      else if res_after_fit g s \<noteq> OK then res_after_fit g s
      else fst (apply_phase (inst g s) s d (sphere_centre g s)))"
  by (simp add: calibrate_instance_unfold)

lemma dec_digit [simp]:
  "dec 0 = ''0''" "dec 1 = ''1''" "dec 2 = ''2''"
  "dec (Suc 0) = ''1''" "dec (Suc (Suc 0)) = ''2''"
  by (simp_all add: dec.simps)

lemma upt_3: "[0..<3] = [0, 1, 2]"
  by (simp add: upt_rec [of _ 3] upt_rec [of _ 2] upt_rec [of _ 1])

lemma acquire_loop_all_good:
  "(\<forall>k. loop_time e k < d) \<Longrightarrow> (\<forall>k. 0 < poll_ret e k) \<Longrightarrow>
   calibration_counter st \<le> calibration_maxcount \<Longrightarrow> poll_errcount st \<le> 1000 \<Longrightarrow>
   acq_res (acquire_loop e d st) = acq_res st \<and>
   calibration_counter (acquire_loop e d st) = calibration_maxcount"
proof (induction st rule: acquire_loop_induct [of e d])
  case (exit st)
  then show ?case by (simp add: acquire_loop_exit loop_cond_def)
next
  case (abort st)
  have "\<not> poll_ret e (polls st) \<le> 0"
    using abort.prems(2) by (simp add: not_le)
  then show ?case
    using abort by (simp add: poll_step_errcount)
next
  case (cont st)
  have "\<not> poll_ret e (polls st) \<le> 0"
    using cont.prems(2) by (simp add: not_le)
  then show ?case
    using cont
    by (simp add: acquire_loop_cont poll_step_res poll_step_counter poll_step_errcount
          loop_cond_def)
qed

lemma acquire_all_good:
  "(\<forall>k. loop_time e k < time0 e + calibration_interval) \<Longrightarrow> (\<forall>k. 0 < poll_ret e k) \<Longrightarrow>
   0 \<le> subscribe_ret e \<Longrightarrow>
   acq_res (acquire e s) = OK \<and> calibration_counter (acquire e s) = calibration_maxcount"
  using acquire_loop_all_good [of e "time0 e + calibration_interval"]
  by (simp add: acquire_def)

lemma e_healthy_acquire:
  "acq_res (acquire e_healthy s) = OK \<and> calibration_counter (acquire e_healthy s) = 240"
  using acquire_all_good [of e_healthy s]
  by (simp add: e_healthy_def calibration_interval_def calibration_maxcount_def)

lemma res_after_fit_eq:
  "res_after_fit g s =
     (if acq_res (acquire (inst g s) s) = OK
         \<and> calibration_maxcount div 2 < calibration_counter (acquire (inst g s) s)
      then (case sphere_fit_least_squares g (x_arr (acquire (inst g s) s))
                   (y_arr (acquire (inst g s) s)) (z_arr (acquire (inst g s) s))
                   (calibration_counter (acquire (inst g s) s)) of
              (cx, cy, cz) \<Rightarrow>
                if isfinite cx \<and> isfinite cy \<and> isfinite cz then OK else ERROR)
      else acq_res (acquire (inst g s) s))"
  by (auto simp: res_after_fit_def fit_phase_def split: prod.splits)

lemma sphere_centre_eq:
  "sphere_centre g s =
     (if acq_res (acquire (inst g s) s) = OK
         \<and> calibration_maxcount div 2 < calibration_counter (acquire (inst g s) s)
      then sphere_fit_least_squares g (x_arr (acquire (inst g s) s))
                   (y_arr (acquire (inst g s) s)) (z_arr (acquire (inst g s) s))
                   (calibration_counter (acquire (inst g s) s))
      else uninit_sphere (inst g s))"
  by (auto simp: sphere_centre_def fit_phase_def split: prod.splits)

lemma param_writes_explicit:
  "param_writes s d m =
     [(''CAL_MAG'' @ dec s @ ''_ID'', PUInt d),
      (''CAL_MAG'' @ dec s @ ''_XOFF'', PFloat (x_offset m)),
      (''CAL_MAG'' @ dec s @ ''_YOFF'', PFloat (y_offset m)),
      (''CAL_MAG'' @ dec s @ ''_ZOFF'', PFloat (z_offset m)),
      (''CAL_MAG'' @ dec s @ ''_XSCALE'', PFloat (x_scale m)),
      (''CAL_MAG'' @ dec s @ ''_YSCALE'', PFloat (y_scale m)),
      (''CAL_MAG'' @ dec s @ ''_ZSCALE'', PFloat (z_scale m)),
      (''CAL_MAG'' @ dec s @ ''_TMPNOM'', PFloat (cal_temp m)),
      (''CAL_MAG'' @ dec s @ ''_TMPMIN'', PFloat (min_temp m)),
      (''CAL_MAG'' @ dec s @ ''_TMPMAX'', PFloat (max_temp m)),
      (''CAL_MAG'' @ dec s @ ''_TA0X0'', PFloat (idx3 (x1_temp m) 0)),
      (''CAL_MAG'' @ dec s @ ''_TA0X1'', PFloat (idx3 (x2_temp m) 0)),
      (''CAL_MAG'' @ dec s @ ''_TA0X2'', PFloat (idx3 (x3_temp m) 0)),
      (''CAL_MAG'' @ dec s @ ''_TA1X0'', PFloat (idx3 (x1_temp m) 1)),
      (''CAL_MAG'' @ dec s @ ''_TA1X1'', PFloat (idx3 (x2_temp m) 1)),
      (''CAL_MAG'' @ dec s @ ''_TA1X2'', PFloat (idx3 (x3_temp m) 1)),
      (''CAL_MAG'' @ dec s @ ''_TA2X0'', PFloat (idx3 (x1_temp m) 2)),
      (''CAL_MAG'' @ dec s @ ''_TA2X1'', PFloat (idx3 (x2_temp m) 2)),
      (''CAL_MAG'' @ dec s @ ''_TA2X2'', PFloat (idx3 (x3_temp m) 2))]"
  by (simp add: param_writes_def upt_3)

lemma healthy_fields [simp]:
  "\<not> x_null e_healthy" "\<not> y_null e_healthy" "\<not> z_null e_healthy"
  "get_scale_ret e_healthy = OK" "apply_ret e_healthy = OK"
  "get_scale_val e_healthy = mscale_null" "param_set e_healthy = (\<lambda>name v. OK)"
  "open_fd e_healthy = 3" "reset_ret e_healthy = OK" "calibrate_ret e_healthy = OK"
  "device_id_ret e_healthy = 131594" "subscribe_ret e_healthy = 4"
  "uninit_sphere e_healthy = (Finite 7, Finite 8, Finite 9)"
  by (simp_all add: e_healthy_def)

lemma param_writes_length: "length (param_writes s d m) = 19"
  by (simp add: param_writes_explicit)

lemma param_writes_distinct: "distinct (map fst (param_writes s d m))"
  by (simp add: param_writes_explicit)

lemma acquire_loop_cong:
  assumes "loop_time e' = loop_time e" and "poll_ret e' = poll_ret e"
    and "mag_report e' = mag_report e"
  shows "acquire_loop e' d st = acquire_loop e d st"
proof (induction st rule: acquire_loop_induct [of e d])
  case (exit st)
  then have "\<not> loop_cond e' d st" by (simp add: loop_cond_def assms)
  with exit show ?case by (simp add: acquire_loop_exit)
next
  case (abort st)
  have p: "poll_step e' st = poll_step e st" by (simp add: poll_step_def assms)
  have "loop_cond e' d st" using abort by (simp add: loop_cond_def assms)
  with abort p show ?case by (simp add: acquire_loop_abort)
next
  case (cont st)
  have p: "poll_step e' st = poll_step e st" by (simp add: poll_step_def assms)
  have "loop_cond e' d st" using cont by (simp add: loop_cond_def assms)
  with cont p show ?case by (simp add: acquire_loop_cont)
qed

lemma acquire_cong:
  assumes "subscribe_ret e' = subscribe_ret e" and "time0 e' = time0 e"
    and "loop_time e' = loop_time e" and "poll_ret e' = poll_ret e"
    and "mag_report e' = mag_report e"
  shows "acquire e' s = acquire e s"
  using assms acquire_loop_cong [of e' e] by (simp add: acquire_def)

lemma calibrate_instance_cong:
  assumes "sphere_fit_least_squares g' = sphere_fit_least_squares g"
    and "x_null (inst g' s) = x_null (inst g s)"
    and "y_null (inst g' s) = y_null (inst g s)"
    and "z_null (inst g' s) = z_null (inst g s)"
    and "subscribe_ret (inst g' s) = subscribe_ret (inst g s)"
    and "time0 (inst g' s) = time0 (inst g s)"
    and "loop_time (inst g' s) = loop_time (inst g s)"
    and "poll_ret (inst g' s) = poll_ret (inst g s)"
    and "mag_report (inst g' s) = mag_report (inst g s)"
    and "uninit_sphere (inst g' s) = uninit_sphere (inst g s)"
    and "get_scale_ret (inst g' s) = get_scale_ret (inst g s)"
    and "get_scale_val (inst g' s) = get_scale_val (inst g s)"
    and "apply_ret (inst g' s) = apply_ret (inst g s)"
    and "param_set (inst g' s) = param_set (inst g s)"
  shows "calibrate_instance g' s d = calibrate_instance g s d"
proof -
  have a: "acquire (inst g' s) s = acquire (inst g s) s"
    using assms by (intro acquire_cong) simp_all
  have f: "fit_phase g' (inst g' s) s a = fit_phase g (inst g s) s a" for a
    unfolding fit_phase_def assms ..
  have r: "read_and_apply (inst g' s) s c = read_and_apply (inst g s) s c" for c
    unfolding read_and_apply_def assms ..
  have p: "apply_phase (inst g' s) s d c = apply_phase (inst g s) s d c" for c
    unfolding apply_phase_def r assms ..
  show ?thesis
    unfolding calibrate_instance_def Let_def a f p assms ..
qed


lemma with_param_set_acquire:
  "acquire (inst (with_param_set g s ps) s) s = acquire (inst g s) s"
  by (rule acquire_cong) (simp_all add: with_param_set_def)

lemma with_param_set_centre: "sphere_centre (with_param_set g s ps) s = sphere_centre g s"
  by (simp add: sphere_centre_eq with_param_set_acquire) (simp add: with_param_set_def)

lemma with_param_set_res: "res_after_fit (with_param_set g s ps) s = res_after_fit g s"
  by (simp add: res_after_fit_eq with_param_set_acquire) (simp add: with_param_set_def)

lemma with_param_set_reached:
  "param_phase_reached (with_param_set g s ps) s = param_phase_reached g s"
  by (simp add: param_phase_reached_def with_param_set_res) (simp add: with_param_set_def)

lemma with_param_set_calls:
  "param_calls (snd (calibrate_instance (with_param_set g s ps) s d)) =
   param_calls (snd (calibrate_instance g s d))"
  by (simp add: calibrate_instance_param_calls with_param_set_reached with_param_set_centre)
     (simp add: with_param_set_def)

lemma yoff_fails_fields [simp]:
  "inst g_yoff_fails s = e_yoff_fails"
  "sphere_fit_least_squares g_yoff_fails = (\<lambda>xa ya za n. (Finite 100, Finite (- 50), Finite 30))"
  "\<not> x_null e_yoff_fails" "\<not> y_null e_yoff_fails" "\<not> z_null e_yoff_fails"
  "get_scale_ret e_yoff_fails = OK" "apply_ret e_yoff_fails = OK"
  "get_scale_val e_yoff_fails = mscale_null"
  "param_set e_yoff_fails = (\<lambda>name v. if name = ''CAL_MAG0_YOFF'' then ERROR else OK)"
  by (simp_all add: g_yoff_fails_def e_yoff_fails_def)

lemma yoff_fails_acquire: "acquire e_yoff_fails s = acquire e_healthy s"
  by (rule acquire_cong) (simp_all add: e_yoff_fails_def)

lemma yoff_fails_reached: "param_phase_reached g_yoff_fails 0"
  using e_healthy_acquire [of 0]
  by (simp add: param_phase_reached_def res_after_fit_eq yoff_fails_acquire
        calibration_maxcount_def)

lemma yoff_fails_centre: "sphere_centre g_yoff_fails 0 = (Finite 100, Finite (- 50), Finite 30)"
  using e_healthy_acquire [of 0]
  by (simp add: sphere_centre_eq yoff_fails_acquire calibration_maxcount_def)

lemma insufficient_samples_skip_fit:
  "calibration_counter (acquire (inst g s) s) \<le> calibration_maxcount div 2 \<Longrightarrow>
   filter is_fit (snd (calibrate_instance g s d)) = []"
  by (simp add: calibrate_instance_fits)

lemma insufficient_samples_reach_param_writes:
  assumes "\<not> x_null (inst g s)" and "\<not> y_null (inst g s)" and "\<not> z_null (inst g s)"
    and "acq_res (acquire (inst g s) s) = OK"
    and "calibration_counter (acquire (inst g s) s) \<le> calibration_maxcount div 2"
    and "get_scale_ret (inst g s) = OK" and "apply_ret (inst g s) = OK"
  shows "param_calls (snd (calibrate_instance g s d)) =
           param_writes s d
             (temp_terms d (with_offsets (get_scale_val (inst g s)) (uninit_sphere (inst g s))))"
    and "fst (calibrate_instance g s d) =
           (if list_ex (\<lambda>(name, v). param_set (inst g s) name v \<noteq> OK)
                 (param_writes s d (temp_terms d
                    (with_offsets (get_scale_val (inst g s)) (uninit_sphere (inst g s)))))
            then ERROR else OK)"
  using assms
  by (simp_all add: calibrate_instance_param_calls calibrate_instance_res apply_phase_res
        param_phase_reached_def res_after_fit_eq sphere_centre_eq)

lemma nonfinite_centre_writes_nothing:
  assumes "\<not> x_null (inst g s)" and "\<not> y_null (inst g s)" and "\<not> z_null (inst g s)"
    and "acq_res (acquire (inst g s) s) = OK"
    and "calibration_maxcount div 2 < calibration_counter (acquire (inst g s) s)"
    and "sphere_fit_least_squares g (x_arr (acquire (inst g s) s))
           (y_arr (acquire (inst g s) s)) (z_arr (acquire (inst g s) s))
           (calibration_counter (acquire (inst g s) s)) = (cx, cy, cz)"
    and "\<not> isfinite cx \<or> \<not> isfinite cy \<or> \<not> isfinite cz"
  shows "fst (calibrate_instance g s d) = ERROR"
    and "param_calls (snd (calibrate_instance g s d)) = []"
    and "scale_writes (snd (calibrate_instance g s d)) = []"
  using assms
  by (auto simp: calibrate_instance_param_calls calibrate_instance_res
        calibrate_instance_scale_writes param_phase_reached_def res_after_fit_eq
        OK_def ERROR_def)

lemma nosamples_acquire:
  "acquire e_nosamples s =
     \<lparr> calibration_counter = 0, poll_errcount = 0, x_arr = [], y_arr = [], z_arr = [],
       acq_res = OK, polls = 0,
       acq_log = [Subscribe s,
                  Info (Text ''Turn on all sides: front/back,left/right,up/down'')] \<rparr>"
  unfolding acquire_def
  by (subst acquire_loop_exit)
     (simp_all add: loop_cond_def e_nosamples_def e_healthy_def calibration_interval_def)

lemma onesample_acquire:
  "acquire e_onesample s =
     \<lparr> calibration_counter = 1, poll_errcount = 0,
       x_arr = [Finite 1], y_arr = [Finite 2], z_arr = [Finite 3],
       acq_res = OK, polls = 1,
       acq_log = [Subscribe s,
                  Info (Text ''Turn on all sides: front/back,left/right,up/down'')] \<rparr>"
proof -
  let ?d = "time0 e_onesample + calibration_interval"
  let ?st0 = "\<lparr> calibration_counter = 0, poll_errcount = 0, x_arr = [], y_arr = [], z_arr = [],
       acq_res = OK, polls = 0,
       acq_log = [Subscribe s,
                  Info (Text ''Turn on all sides: front/back,left/right,up/down'')] \<rparr>"
  have "acquire e_onesample s = acquire_loop e_onesample ?d ?st0"
    by (simp add: acquire_def e_onesample_def e_healthy_def)
  also have "\<dots> = acquire_loop e_onesample ?d (poll_step e_onesample ?st0)"
    by (rule acquire_loop_cont)
       (simp_all add: loop_cond_def poll_step_def e_onesample_def e_healthy_def
          calibration_interval_def calibration_maxcount_def)
  also have "\<dots> = poll_step e_onesample ?st0"
    by (rule acquire_loop_exit)
       (simp add: loop_cond_def poll_step_def e_onesample_def e_healthy_def
          calibration_interval_def calibration_maxcount_def)
  finally show ?thesis
    by (simp add: poll_step_def e_onesample_def e_healthy_def calibration_maxcount_def)
qed

section \<open>The loop over the instances\<close>

lemma instance_events_eq:
  "instance_events g s =
     (if open_fd (inst g s) < 0 then [Open s]
      else [Open s, Info (Text ''Calibrating magnetometer #%u..''), GetDeviceId s,
            SetScale s mscale_null] @
           (if reset_ret (inst g s) \<noteq> OK then [Critical CAL_FAILED_RESET_CAL_MSG]
            else [Calibrate s] @
                 (if calibrate_ret (inst g s) \<noteq> OK
                  then [Info (Text ''Skipped scale calibration'')] else []) @
                 snd (calibrate_instance g s (device_id_ret (inst g s)))))"
  by (simp add: instance_events_def instance_step_def Let_def OK_def split: prod.splits)

lemma instance_step_eq:
  "instance_step g s (r, n, evs) =
     (if open_fd (inst g s) < 0 then r
      else if reset_ret (inst g s) \<noteq> OK then reset_ret (inst g s)
      else fst (calibrate_instance g s (device_id_ret (inst g s))),
      n + (if instance_ok g s then 1 else 0),
      evs @ instance_events g s)"
  by (simp add: instance_events_eq)
     (simp add: instance_step_def instance_ok_def Let_def OK_def split: prod.splits)

lemma fold_instance_step:
  "snd (fold (instance_step g) ss (r, n, evs)) =
     (n + length (filter (instance_ok g) ss), evs @ concat (map (instance_events g) ss))"
proof (induction ss arbitrary: r n evs)
  case Nil
  then show ?case by simp
next
  case (Cons s ss)
  then show ?case by (simp add: instance_step_eq)
qed

lemma fold_instance_step_res:
  "(r = OK \<longrightarrow> 0 < n) \<Longrightarrow>
   fst (fold (instance_step g) ss (r, n, evs)) = OK \<longrightarrow>
     0 < fst (snd (fold (instance_step g) ss (r, n, evs)))"
proof (induction ss arbitrary: r n evs)
  case Nil
  then show ?case by simp
next
  case (Cons s ss)
  show ?case
    unfolding fold_simps instance_step_eq
    by (rule Cons.IH) (use Cons.prems in \<open>auto simp: instance_ok_def\<close>)
qed

lemma mag_loop_count:
  "fst (snd (mag_loop g)) = length (filter (instance_ok g) [0..<max_mags])"
  by (simp add: mag_loop_def fold_instance_step)

lemma mag_loop_events:
  "snd (snd (mag_loop g)) = [Info CAL_STARTED_MSG] @ concat (map (instance_events g) [0..<max_mags])"
  by (simp add: mag_loop_def fold_instance_step)

lemma mag_loop_res: "fst (mag_loop g) = OK \<longrightarrow> 0 < fst (snd (mag_loop g))"
  unfolding mag_loop_def by (rule fold_instance_step_res) (simp add: OK_def ERROR_def)

lemma do_mag_calibration_res:
  "fst (do_mag_calibration g) =
     (if fst (snd (mag_loop g)) \<noteq> 0 then param_save_default g else fst (mag_loop g))"
  by (simp add: do_mag_calibration_def split: prod.splits)

lemma do_mag_calibration_events:
  "snd (do_mag_calibration g) =
     snd (snd (mag_loop g)) @
     (if fst (snd (mag_loop g)) \<noteq> 0
      then [Info (CAL_PROGRESS_MSG 100), Info CAL_DONE_MSG, ParamSave] @
           (if param_save_default g \<noteq> OK then [Critical CAL_FAILED_SAVE_PARAMS_MSG] else [])
      else [Critical CAL_FAILED_MSG])"
  by (simp add: do_mag_calibration_def split: prod.splits)

lemma count_pos_iff:
  "0 < length (filter (instance_ok g) [0..<max_mags]) \<longleftrightarrow> (\<exists>s<max_mags. instance_ok g s)"
proof -
  have "0 < length (filter (instance_ok g) [0..<max_mags])
          \<longleftrightarrow> filter (instance_ok g) [0..<max_mags] \<noteq> []"
    by simp
  also have "\<dots> \<longleftrightarrow> (\<exists>s \<in> set [0..<max_mags]. instance_ok g s)"
    by (simp only: filter_empty_conv) blast
  also have "\<dots> \<longleftrightarrow> (\<exists>s<max_mags. instance_ok g s)"
    by auto
  finally show ?thesis .
qed

lemma upt_max_mags: "[0..<max_mags] = [0, 1, 2]"
  by (simp add: max_mags_def upt_3)

lemma do_mag_calibration_events_all:
  "snd (do_mag_calibration g) =
     [Info CAL_STARTED_MSG] @ instance_events g 0 @ instance_events g 1 @ instance_events g 2 @
     (if fst (snd (mag_loop g)) \<noteq> 0
      then [Info (CAL_PROGRESS_MSG 100), Info CAL_DONE_MSG, ParamSave] @
           (if param_save_default g \<noteq> OK then [Critical CAL_FAILED_SAVE_PARAMS_MSG] else [])
      else [Critical CAL_FAILED_MSG])"
  by (simp add: do_mag_calibration_events mag_loop_events upt_max_mags)

lemma list_ex_never [simp]: "\<not> list_ex (\<lambda>(name, v). False) ws"
  by (induction ws) auto

lemma healthy_instance_ok:
  assumes "inst g s = e_healthy"
    and "sphere_fit_least_squares g = (\<lambda>xa ya za n. (cx, cy, cz))"
    and "isfinite cx" and "isfinite cy" and "isfinite cz"
  shows "instance_ok g s"
proof -
  have a: "acq_res (acquire e_healthy s) = OK"
    and n: "calibration_maxcount div 2 < calibration_counter (acquire e_healthy s)"
    using e_healthy_acquire [of s] by (simp_all add: calibration_maxcount_def)
  have r: "res_after_fit g s = OK"
    using assms a n by (simp add: res_after_fit_eq)
  have "fst (calibrate_instance g s d) = OK" for d
    using assms r by (simp add: calibrate_instance_res apply_phase_res)
  then show ?thesis
    using assms by (simp add: instance_ok_def)
qed

lemma absent_not_ok: "inst g s = e_absent \<Longrightarrow> \<not> instance_ok g s"
  by (simp add: instance_ok_def e_absent_def)

lemma with_calibrate_ret_instance:
  "calibrate_instance (with_calibrate_ret g s r) s d = calibrate_instance g s d"
  by (rule calibrate_instance_cong) (simp_all add: with_calibrate_ret_def)

lemma with_calibrate_ret_fields [simp]:
  "open_fd (inst (with_calibrate_ret g s r) s) = open_fd (inst g s)"
  "reset_ret (inst (with_calibrate_ret g s r) s) = reset_ret (inst g s)"
  "device_id_ret (inst (with_calibrate_ret g s r) s) = device_id_ret (inst g s)"
  "calibrate_ret (inst (with_calibrate_ret g s r) s) = r"
  by (simp_all add: with_calibrate_ret_def)

lemma timeout_acquire: "acq_res (acquire e_timeout s) = ERROR"
proof -
  let ?d = "time0 e_timeout + calibration_interval"
  let ?st0 = "\<lparr> calibration_counter = 0, poll_errcount = 0, x_arr = [], y_arr = [], z_arr = [],
            acq_res = OK, polls = 0,
            acq_log = [Subscribe s,
                   Info (Text ''Turn on all sides: front/back,left/right,up/down'')] \<rparr>"
  let ?st1 = "?st0\<lparr> poll_errcount := 1000, polls := 1000 \<rparr>"
  have a: "acquire e_timeout s = acquire_loop e_timeout ?d ?st0"
    by (simp add: acquire_def e_timeout_def e_healthy_def)
  have "acquire_loop e_timeout ?d ?st0 = acquire_loop e_timeout ?d ?st1"
    using acquire_loop_failures [of ?st0 1000 e_timeout ?d]
    by (simp add: e_timeout_def e_healthy_def calibration_maxcount_def calibration_interval_def)
  also have "\<dots> = (poll_step e_timeout ?st1)
       \<lparr> acq_res := ERROR,
         acq_log := acq_log (poll_step e_timeout ?st1) @ [Critical CAL_FAILED_SENSOR_MSG] \<rparr>"
    by (rule acquire_loop_abort)
       (simp_all add: loop_cond_def poll_step_def calibration_maxcount_def
          calibration_interval_def e_timeout_def e_healthy_def)
  finally show ?thesis
    by (simp add: a)
qed

lemma timeout_not_ok: "inst g s = e_timeout \<Longrightarrow> \<not> instance_ok g s"
  using timeout_acquire [of s]
  by (simp add: instance_ok_def calibrate_instance_res res_after_fit_eq OK_def ERROR_def)

lemma instance_events_cong:
  assumes "inst g' s = inst g s"
    and "sphere_fit_least_squares g' = sphere_fit_least_squares g"
  shows "instance_events g' s = instance_events g s" and "instance_ok g' s = instance_ok g s"
proof -
  have "calibrate_instance g' s d = calibrate_instance g s d" for d
    by (rule calibrate_instance_cong) (simp_all add: assms)
  then show "instance_events g' s = instance_events g s"
    and "instance_ok g' s = instance_ok g s"
    by (simp_all add: instance_events_eq instance_ok_def assms)
qed

lemma instance_events_hd: "hd (instance_events g s) = Open s"
  by (simp add: instance_events_eq)

lemma addressed_simps [simp]:
  "addressed [] = []"
  "addressed (ev # evs) = event_instance ev @ addressed evs"
  "addressed (evs @ evs') = addressed evs @ addressed evs'"
  by (simp_all add: addressed_def)

lemma messages_not_addressed: "list_all is_message ms \<Longrightarrow> addressed ms = []"
proof (induction ms)
  case Nil
  then show ?case by simp
next
  case (Cons m ms)
  then show ?case by (cases m) simp_all
qed

lemma addressed_ParamSet:
  "addressed (map (\<lambda>(name, v). ParamSet name v (ps name v)) ws) = []"
  by (induction ws) auto

lemma acquire_addressed: "addressed (acq_log (acquire e s)) = [s]"
  using acquire_log [of e s] by (auto simp: messages_not_addressed)

lemma fit_phase_addressed: "set (addressed (snd (snd (fit_phase g e s a)))) \<subseteq> {s}"
  by (simp add: fit_phase_def split: prod.splits)

lemma apply_phase_addressed: "set (addressed (snd (apply_phase e s d c))) \<subseteq> {s}"
  by (cases c)
     (simp add: apply_phase_def read_and_apply_def Let_def set_params_eq addressed_ParamSet)

lemma calibrate_instance_addressed: "set (addressed (snd (calibrate_instance g s d))) \<subseteq> {s}"
  using fit_phase_addressed [of g "inst g s" s "acquire (inst g s) s"]
    apply_phase_addressed [of "inst g s" s d "sphere_centre g s"]
  by (simp add: calibrate_instance_unfold acquire_addressed)

lemma instance_events_addressed: "set (addressed (instance_events g s)) = {s}"
  using calibrate_instance_addressed [of g s "device_id_ret (inst g s)"]
  by (auto simp: instance_events_eq)

lemma param_keys: "map fst (param_writes s d m) = instance_keys s"
  by (simp add: instance_keys_def param_writes_explicit)

lemma calibrate_instance_keys:
  "set (map fst (param_calls (snd (calibrate_instance g s d)))) \<subseteq> set (instance_keys s)"
proof (cases "param_phase_reached g s")
  case True
  then show ?thesis
    by (simp only: calibrate_instance_param_calls if_True param_keys subset_refl)
next
  case False
  then show ?thesis
    by (simp add: calibrate_instance_param_calls)
qed

lemma instance_events_keys:
  "set (map fst (param_calls (instance_events g s))) \<subseteq> set (instance_keys s)"
  using calibrate_instance_keys [of g s "device_id_ret (inst g s)"]
  by (simp add: instance_events_eq)

lemma do_mag_calibration_addressed:
  "set (addressed (snd (do_mag_calibration g))) = {0, 1, 2}"
  by (auto simp: do_mag_calibration_events mag_loop_events upt_max_mags
        instance_events_addressed)

lemma do_mag_calibration_keys:
  "set (map fst (param_calls (snd (do_mag_calibration g))))
     \<subseteq> set (instance_keys 0) \<union> set (instance_keys 1) \<union> set (instance_keys 2)"
  using instance_events_keys [of g 0] instance_events_keys [of g 1] instance_events_keys [of g 2]
  by (auto simp: do_mag_calibration_events mag_loop_events upt_max_mags)


subsection \<open>The parameter names of different instances differ\<close>

lemma digit_inj:
  "a < 10 \<Longrightarrow> b < 10 \<Longrightarrow> ''0123456789'' ! a = ''0123456789'' ! b \<Longrightarrow> a = b"
proof -
  assume "a < 10" "b < 10" "''0123456789'' ! a = ''0123456789'' ! b"
  moreover have "distinct ''0123456789''" by simp
  ultimately show "a = b"
    by (simp add: nth_eq_iff_index_eq)
qed

lemma digit_not_underscore: "a < 10 \<Longrightarrow> ''0123456789'' ! a \<noteq> CHR ''_''"
proof -
  assume "a < 10"
  then have "''0123456789'' ! a \<in> set ''0123456789''"
    by (intro nth_mem) simp
  then show ?thesis by auto
qed

lemma dec_nonempty: "dec n \<noteq> []"
  by (subst dec.simps) simp

lemma dec_length: "length (dec n) = Suc 0 \<longleftrightarrow> n < 10"
  using dec_nonempty [of "n div 10"] by (subst dec.simps) (auto simp: Suc_length_conv)

lemma dec_no_underscore: "CHR ''_'' \<notin> set (dec n)"
proof (induction n rule: dec.induct)
  case (1 n)
  show ?case
  proof (cases "n < 10")
    case True
    then show ?thesis
      using digit_not_underscore [of n] by (subst dec.simps) auto
  next
    case False
    then show ?thesis
      using 1 digit_not_underscore [of "n mod 10"] by (subst dec.simps) auto
  qed
qed

lemma dec_inj: "dec i = dec j \<Longrightarrow> i = j"
proof (induction i arbitrary: j rule: dec.induct)
  case (1 i)
  show ?case
  proof (cases "i < 10")
    case True
    then have "length (dec j) = Suc 0" using "1.prems" dec_length [of i] by simp
    then have j: "j < 10" by (simp add: dec_length)
    have "[''0123456789'' ! i] = [''0123456789'' ! j]"
      using "1.prems" True j by (subst (asm) (1 2) dec.simps) simp
    then show ?thesis using digit_inj True j by simp
  next
    case False
    then have "length (dec j) \<noteq> Suc 0" using "1.prems" dec_length [of i] by simp
    then have j: "\<not> j < 10" by (simp add: dec_length)
    have "dec (i div 10) @ [''0123456789'' ! (i mod 10)]
          = dec (j div 10) @ [''0123456789'' ! (j mod 10)]"
      using "1.prems" False j by (subst (asm) (1 2) dec.simps) simp
    then have a: "dec (i div 10) = dec (j div 10)"
      and b: "''0123456789'' ! (i mod 10) = ''0123456789'' ! (j mod 10)"
      by simp_all
    have "i div 10 = j div 10" using "1.IH" [OF False a] .
    moreover have "i mod 10 = j mod 10" using digit_inj [OF _ _ b] by simp
    ultimately show ?thesis by (metis div_mult_mod_eq)
  qed
qed

lemma split_at_underscore:
  assumes "u @ CHR ''_'' # r = v @ CHR ''_'' # r'"
    and "CHR ''_'' \<notin> set u" and "CHR ''_'' \<notin> set v"
  shows "u = v"
proof -
  have "takeWhile (\<lambda>c. c \<noteq> CHR ''_'') (u @ CHR ''_'' # r) = u"
    using assms(2) by (induction u) auto
  moreover have "takeWhile (\<lambda>c. c \<noteq> CHR ''_'') (v @ CHR ''_'' # r') = v"
    using assms(3) by (induction v) auto
  ultimately show ?thesis using assms(1) by simp
qed

lemma instance_key_form:
  "k \<in> set (instance_keys s) \<Longrightarrow> \<exists>r. k = ''CAL_MAG'' @ dec s @ CHR ''_'' # r"
  by (auto simp: instance_keys_def param_writes_explicit)

lemma instance_keys_disjoint:
  assumes "i \<noteq> j"
  shows "set (instance_keys i) \<inter> set (instance_keys j) = {}"
proof (rule ccontr)
  assume "set (instance_keys i) \<inter> set (instance_keys j) \<noteq> {}"
  then obtain k where "k \<in> set (instance_keys i)" "k \<in> set (instance_keys j)" by auto
  then obtain r r' where "k = ''CAL_MAG'' @ dec i @ CHR ''_'' # r"
    "k = ''CAL_MAG'' @ dec j @ CHR ''_'' # r'"
    using instance_key_form by blast
  then have "dec i @ CHR ''_'' # r = dec j @ CHR ''_'' # r'" by simp
  then have "dec i = dec j"
    by (rule split_at_underscore) (simp_all add: dec_no_underscore)
  then show False using assms dec_inj by blast
qed

lemma healthy_reached:
  assumes "inst g s = e_healthy"
    and "sphere_fit_least_squares g = (\<lambda>xa ya za n. (cx, cy, cz))"
    and "isfinite cx" and "isfinite cy" and "isfinite cz"
  shows "param_phase_reached g s"
  using assms e_healthy_acquire [of s]
  by (simp add: param_phase_reached_def res_after_fit_eq calibration_maxcount_def)

lemma timeout_not_reached: "inst g s = e_timeout \<Longrightarrow> \<not> param_phase_reached g s"
  using timeout_acquire [of s]
  by (simp add: param_phase_reached_def res_after_fit_eq OK_def ERROR_def)

lemma param_calls_instance_events:
  "param_calls (instance_events g s) =
     (if 0 \<le> open_fd (inst g s) \<and> reset_ret (inst g s) = OK
      then param_calls (snd (calibrate_instance g s (device_id_ret (inst g s)))) else [])"
  by (simp add: instance_events_eq)

section \<open>C1: too few samples\<close>

text \<open>
  C1 says that with at most 120 samples the fit is not invoked and the instance is
  marked failed, so that nothing is applied. The code skips the fit
  (\<open>insufficient_samples_skip_fit\<close>) but leaves \<open>res\<close> at \<open>OK\<close>: with no sample at all,
  \<open>calibrate_instance\<close> returns \<open>OK\<close>, writes the uninitialised \<open>sphere_x\<close>,
  \<open>sphere_y\<close>, \<open>sphere_z\<close> (here 7, 8, 9) to the device as offsets and sets all 19
  parameters.
\<close>

theorem zero_samples_instance_not_failed:
  "calibration_counter (acquire (inst g_nosamples 0) 0) = 0
   \<and> calibrate_instance g_nosamples 0 42 =
    (OK,
     [Info (CAL_PROGRESS_MSG 20), Subscribe 0,
      Info (Text ''Turn on all sides: front/back,left/right,up/down''),
      Open 0, GetScale 0,
      SetScale 0 (mscale_null\<lparr> x_offset := Finite 7, y_offset := Finite 8,
                               z_offset := Finite 9 \<rparr>),
      ParamSet ''CAL_MAG0_ID'' (PUInt 42) OK,
      ParamSet ''CAL_MAG0_XOFF'' (PFloat (Finite 7)) OK,
      ParamSet ''CAL_MAG0_YOFF'' (PFloat (Finite 8)) OK,
      ParamSet ''CAL_MAG0_ZOFF'' (PFloat (Finite 9)) OK,
      ParamSet ''CAL_MAG0_XSCALE'' (PFloat (Finite 1)) OK,
      ParamSet ''CAL_MAG0_YSCALE'' (PFloat (Finite 1)) OK,
      ParamSet ''CAL_MAG0_ZSCALE'' (PFloat (Finite 1)) OK,
      ParamSet ''CAL_MAG0_TMPNOM'' (PFloat (Finite 0)) OK,
      ParamSet ''CAL_MAG0_TMPMIN'' (PFloat (Finite 0)) OK,
      ParamSet ''CAL_MAG0_TMPMAX'' (PFloat (Finite 0)) OK,
      ParamSet ''CAL_MAG0_TA0X0'' (PFloat (Finite 0)) OK,
      ParamSet ''CAL_MAG0_TA0X1'' (PFloat (Finite 0)) OK,
      ParamSet ''CAL_MAG0_TA0X2'' (PFloat (Finite 0)) OK,
      ParamSet ''CAL_MAG0_TA1X0'' (PFloat (Finite 0)) OK,
      ParamSet ''CAL_MAG0_TA1X1'' (PFloat (Finite 0)) OK,
      ParamSet ''CAL_MAG0_TA1X2'' (PFloat (Finite 0)) OK,
      ParamSet ''CAL_MAG0_TA2X0'' (PFloat (Finite 0)) OK,
      ParamSet ''CAL_MAG0_TA2X1'' (PFloat (Finite 0)) OK,
      ParamSet ''CAL_MAG0_TA2X2'' (PFloat (Finite 0)) OK,
      Info (CAL_PROGRESS_MSG 90),
      Info (Text ''mag off: x:%.2f y:%.2f z:%.2f Ga''),
      Info (Text ''mag scale: x:%.2f y:%.2f z:%.2f'')])"
proof -
  have i: "inst g_nosamples 0 = e_nosamples"
    by (simp add: g_nosamples_def)
  show ?thesis
    unfolding calibrate_instance_def i
    by (simp add: nosamples_acquire)
       (simp add: e_nosamples_def e_healthy_def fit_phase_def apply_phase_def
          read_and_apply_def temp_terms_def param_writes_explicit calibration_maxcount_def
          mscale_null_def Let_def)
qed

section \<open>C2: the overall status\<close>

text \<open>
  C2, as stated: the overall status is success if and only if at least one instance
  was calibrated, and a failure of the final persistence step does not turn the
  result into failure. The code returns the result of \<open>param_save_default\<close>: with
  the device at index 0 calibrated (\<open>calibrated_ok\<close> is 1) and \<open>param_save_default\<close>
  failing, \<open>do_mag_calibration\<close> returns \<open>ERROR\<close> after a critical message.
\<close>

theorem persistence_failure_fails_run:
  "instance_ok g_persist_fails 0
   \<and> fst (snd (mag_loop g_persist_fails)) = 1
   \<and> param_save_default g_persist_fails \<noteq> OK
   \<and> fst (do_mag_calibration g_persist_fails) = ERROR
   \<and> last (snd (do_mag_calibration g_persist_fails)) = Critical CAL_FAILED_SAVE_PARAMS_MSG"
proof -
  have 0: "instance_ok g_persist_fails 0"
    by (rule healthy_instance_ok [of _ _ "Finite 100" "Finite (- 50)" "Finite 30"])
       (simp_all add: g_persist_fails_def)
  have 1: "\<not> instance_ok g_persist_fails 1" and 2: "\<not> instance_ok g_persist_fails 2"
    by (rule absent_not_ok, simp add: g_persist_fails_def)+
  have n: "fst (snd (mag_loop g_persist_fails)) = 1"
    using 0 1 2 by (simp add: mag_loop_count upt_max_mags)
  show ?thesis
    using 0 n
    by (simp add: do_mag_calibration_res do_mag_calibration_events_all)
       (simp add: g_persist_fails_def OK_def ERROR_def)
qed


text \<open>
  C2, amended: when at least one instance was calibrated successfully, the run ends
  with the progress and done messages and the persistence step, and returns what
  \<open>param_save_default\<close> returned; a failure of the persistence step is reported with
  the critical message CAL_FAILED_SAVE_PARAMS_MSG and its error code is the overall
  result. When no instance was calibrated, the run ends with the critical message
  CAL_FAILED_MSG and a status that is not \<open>OK\<close>. So the overall status is \<open>OK\<close> if and
  only if at least one instance was calibrated successfully and
  \<open>param_save_default\<close> returned \<open>OK\<close>.
\<close>

theorem overall_success_needs_persistence:
  "(fst (snd (mag_loop g)) \<noteq> 0 \<longleftrightarrow> (\<exists>s<max_mags. instance_ok g s))
   \<and> ((\<exists>s<max_mags. instance_ok g s) \<longrightarrow>
        do_mag_calibration g =
          (param_save_default g,
           [Info CAL_STARTED_MSG] @
           instance_events g 0 @ instance_events g 1 @ instance_events g 2 @
           [Info (CAL_PROGRESS_MSG 100), Info CAL_DONE_MSG, ParamSave] @
           (if param_save_default g \<noteq> OK then [Critical CAL_FAILED_SAVE_PARAMS_MSG] else [])))
   \<and> (\<not> (\<exists>s<max_mags. instance_ok g s) \<longrightarrow>
        fst (do_mag_calibration g) \<noteq> OK
        \<and> fst (do_mag_calibration g) = fst (mag_loop g)
        \<and> snd (do_mag_calibration g) =
           [Info CAL_STARTED_MSG] @
           instance_events g 0 @ instance_events g 1 @ instance_events g 2 @
           [Critical CAL_FAILED_MSG])
   \<and> (fst (do_mag_calibration g) = OK
        \<longleftrightarrow> (\<exists>s<max_mags. instance_ok g s) \<and> param_save_default g = OK)"
proof -
  have n: "fst (snd (mag_loop g)) \<noteq> 0 \<longleftrightarrow> (\<exists>s<max_mags. instance_ok g s)"
    using count_pos_iff [of g] by (simp add: mag_loop_count)
  have r: "fst (snd (mag_loop g)) = 0 \<Longrightarrow> fst (mag_loop g) \<noteq> OK"
    using mag_loop_res [of g] by auto
  have p: "do_mag_calibration g = (fst (do_mag_calibration g), snd (do_mag_calibration g))"
    by simp
  show ?thesis
    unfolding n [symmetric]
    using r
    by (subst p) (auto simp: do_mag_calibration_res do_mag_calibration_events_all)
qed

theorem overall_success_needs_persistence_witness:
  "(\<exists>s<max_mags. instance_ok g_persist_22 s)
   \<and> fst (do_mag_calibration g_persist_22) = 22
   \<and> last (snd (do_mag_calibration g_persist_22)) = Critical CAL_FAILED_SAVE_PARAMS_MSG
   \<and> \<not> (\<exists>s<max_mags. instance_ok g_reset_fails s)
   \<and> fst (do_mag_calibration g_reset_fails) \<noteq> OK
   \<and> last (snd (do_mag_calibration g_reset_fails)) = Critical CAL_FAILED_MSG"
proof -
  have "instance_ok g_persist_22 0"
    by (rule healthy_instance_ok [of _ _ "Finite 100" "Finite (- 50)" "Finite 30"])
       (simp_all add: g_persist_22_def)
  then have 1: "\<exists>s<max_mags. instance_ok g_persist_22 s"
    by (intro exI [of _ 0]) (simp add: max_mags_def)
  have "\<not> instance_ok g_reset_fails s" for s
    by (simp add: instance_ok_def g_reset_fails_def e_absent_def OK_def ERROR_def)
  then have 2: "\<not> (\<exists>s<max_mags. instance_ok g_reset_fails s)"
    by simp
  have s: "param_save_default g_persist_22 = 22"
    by (simp add: g_persist_22_def)
  show ?thesis
    using overall_success_needs_persistence [of g_persist_22]
      overall_success_needs_persistence [of g_reset_fails] 1 2
    by (simp add: s OK_def)
qed

section \<open>C3: the poll failure counter\<close>

text \<open>
  C3, as stated: the failure counter counts consecutive poll failures, a received
  sample resets it, and the acquisition is aborted exactly when it exceeds 1000. The
  code never resets \<open>poll_errcount\<close>: with 1000 timeouts, then a sample, then one more
  timeout, the acquisition is aborted with \<open>ERROR\<close>, although no more than 1000 polls
  in a row have failed.
\<close>

theorem abort_without_1001_consecutive_failures:
  "acq_res (acquire e_intermittent 0) = ERROR
   \<and> poll_errcount (acquire e_intermittent 0) = 1001
   \<and> polls (acquire e_intermittent 0) = 1002
   \<and> 0 < poll_ret e_intermittent 1000"
  using intermittent_acquire by (simp add: e_intermittent_def)

text \<open>
  C3, amended: \<open>poll_errcount\<close> counts every poll of the acquisition that returned no
  sample (a timeout or an error); a received sample leaves it as it is. The loop
  polls as long as the deadline is not reached, fewer than 240 samples are collected
  and the count has not exceeded 1000: every poll made had these three conditions
  before it. The acquisition is aborted exactly when the count exceeds 1000: it then
  stops at that poll with \<open>ERROR\<close> and the message CAL_FAILED_SENSOR_MSG as its last
  event; otherwise it ends with \<open>OK\<close>, without that message, when the deadline is
  reached or 240 samples are collected.
\<close>

theorem poll_errcount_counts_all_failures:
  assumes "0 \<le> subscribe_ret e"
  shows "poll_errcount (acquire e s) = failed_polls e 0 (polls (acquire e s))
       \<and> calibration_counter (acquire e s) = good_polls e 0 (polls (acquire e s))
       \<and> (\<forall>k < polls (acquire e s).
             loop_time e k < time0 e + calibration_interval
             \<and> good_polls e 0 k < calibration_maxcount
             \<and> failed_polls e 0 k \<le> 1000)
       \<and> (if 1000 < failed_polls e 0 (polls (acquire e s))
           then acq_res (acquire e s) = ERROR
              \<and> last (acq_log (acquire e s)) = Critical CAL_FAILED_SENSOR_MSG
           else acq_res (acquire e s) = OK
              \<and> Critical CAL_FAILED_SENSOR_MSG \<notin> set (acq_log (acquire e s))
              \<and> \<not> (loop_time e (polls (acquire e s)) < time0 e + calibration_interval
                    \<and> good_polls e 0 (polls (acquire e s)) < calibration_maxcount))"
proof -
  let ?d = "time0 e + calibration_interval"
  let ?st0 = "\<lparr> calibration_counter = 0, poll_errcount = 0, x_arr = [], y_arr = [], z_arr = [],
            acq_res = OK, polls = 0,
            acq_log = [Subscribe s,
                   Info (Text ''Turn on all sides: front/back,left/right,up/down'')] \<rparr>"
  have a: "acquire e s = acquire_loop e ?d ?st0"
    using assms by (simp add: acquire_def)
  have 1: "poll_errcount (acquire e s) = failed_polls e 0 (polls (acquire e s))"
    using acquire_loop_errcount [of e ?d ?st0] by (simp add: a)
  have 2: "calibration_counter (acquire e s) = good_polls e 0 (polls (acquire e s))"
    using acquire_loop_counter [of e ?d ?st0] by (simp add: a)
  have 3: "loop_time e k < ?d \<and> good_polls e 0 k < calibration_maxcount
           \<and> failed_polls e 0 k \<le> 1000" if "k < polls (acquire e s)" for k
    using acquire_loop_polls_needed [of ?st0 k e ?d] that by (simp add: a)
  have 4: "if 1000 < poll_errcount (acquire e s)
    then acq_res (acquire e s) = ERROR
       \<and> last (acq_log (acquire e s)) = Critical CAL_FAILED_SENSOR_MSG
    else acq_res (acquire e s) = OK
       \<and> Critical CAL_FAILED_SENSOR_MSG \<notin> set (acq_log (acquire e s))
       \<and> \<not> loop_cond e ?d (acquire e s)"
    using acquire_loop_end [of ?st0 e ?d] by (simp add: a)
  show ?thesis
    using 3 4 unfolding loop_cond_def 1 2 by simp
qed


theorem poll_errcount_counts_all_failures_witness:
  "0 \<le> subscribe_ret e_intermittent
   \<and> polls (acquire e_intermittent 0) = 1002
   \<and> poll_errcount (acquire e_intermittent 0) = 1001
   \<and> failed_polls e_intermittent 0 1002 = 1001
   \<and> good_polls e_intermittent 0 1002 = 1
   \<and> loop_time e_intermittent 1001 < time0 e_intermittent + calibration_interval
   \<and> failed_polls e_intermittent 0 1001 \<le> 1000
   \<and> acq_res (acquire e_intermittent 0) = ERROR
   \<and> last (acq_log (acquire e_intermittent 0)) = Critical CAL_FAILED_SENSOR_MSG"
proof -
  have h: "0 \<le> subscribe_ret e_intermittent"
    by (simp add: e_intermittent_def)
  note t = poll_errcount_counts_all_failures [OF h, of 0]
  have f: "failed_polls e_intermittent 0 1002 = 1001"
    and c: "good_polls e_intermittent 0 1002 = 1"
    using t intermittent_acquire by simp_all
  have "loop_time e_intermittent 1001 < time0 e_intermittent + calibration_interval
     \<and> good_polls e_intermittent 0 1001 < calibration_maxcount
     \<and> failed_polls e_intermittent 0 1001 \<le> 1000"
    using t intermittent_acquire by simp
  then show ?thesis
    using h t intermittent_acquire f c by simp
qed

section \<open>C4: a failing reset of the scale\<close>

text \<open>
  C4, as stated: when the reset of the scale fails, a critical message is reported
  and the instance is processed further (acquisition, fit, apply). The code guards
  both the range calibration and \<open>calibrate_instance\<close> with \<open>res == OK\<close>: in a run
  where the reset of device 0 fails, the critical message is the last event of
  that instance; no subscription, fit, read of the scale or parameter write follows.
\<close>

theorem reset_failure_ends_instance_at_concrete:
  "do_mag_calibration g_reset_fails =
     (ERROR,
      [Info CAL_STARTED_MSG,
       Open 0, Info (Text ''Calibrating magnetometer #%u..''), GetDeviceId 0,
       SetScale 0 mscale_null, Critical CAL_FAILED_RESET_CAL_MSG,
       Open 1, Open 2, Critical CAL_FAILED_MSG])"
proof -
  have i: "inst g_reset_fails = (\<lambda>s. if s = 0 then e_healthy\<lparr> reset_ret := ERROR \<rparr> else e_absent)"
    by (simp add: g_reset_fails_def)
  have l: "mag_loop g_reset_fails =
     (ERROR, 0,
      [Info CAL_STARTED_MSG,
       Open 0, Info (Text ''Calibrating magnetometer #%u..''), GetDeviceId 0,
       SetScale 0 mscale_null, Critical CAL_FAILED_RESET_CAL_MSG,
       Open 1, Open 2])"
    by (simp add: mag_loop_def upt_max_mags instance_step_def i e_absent_def)
       (simp add: OK_def ERROR_def)
  show ?thesis
    by (simp add: do_mag_calibration_def l)
qed

text \<open>
  C4, amended: when the device opens and the reset of the scale fails, a critical
  message is reported and the processing of that instance ends there: no range
  calibration, no acquisition, no fit and no apply is attempted, the instance is
  not counted as calibrated, \<open>res\<close> is the result of the failed reset, and the loop
  goes on with the next index.
\<close>

theorem reset_failure_ends_instance:
  assumes "0 \<le> open_fd (inst g s)" and "reset_ret (inst g s) \<noteq> OK"
  shows "instance_step g s (r, n, evs) =
           (reset_ret (inst g s), n,
            evs @ [Open s, Info (Text ''Calibrating magnetometer #%u..''), GetDeviceId s,
                   SetScale s mscale_null, Critical CAL_FAILED_RESET_CAL_MSG])"
  using assms by (simp add: instance_step_def Let_def)

theorem reset_failure_ends_instance_witness:
  "0 \<le> open_fd (inst g_reset_fails 0) \<and> reset_ret (inst g_reset_fails 0) \<noteq> OK
   \<and> instance_step g_reset_fails 0 (ERROR, 0, [Info CAL_STARTED_MSG]) =
        (ERROR, 0,
         [Info CAL_STARTED_MSG, Open 0, Info (Text ''Calibrating magnetometer #%u..''),
          GetDeviceId 0, SetScale 0 mscale_null, Critical CAL_FAILED_RESET_CAL_MSG])"
proof -
  have h: "0 \<le> open_fd (inst g_reset_fails 0)" "reset_ret (inst g_reset_fails 0) \<noteq> OK"
    by (simp_all add: g_reset_fails_def OK_def ERROR_def)
  show ?thesis
    using h reset_failure_ends_instance [OF h, of ERROR 0 "[Info CAL_STARTED_MSG]"]
    by (simp add: g_reset_fails_def)
qed
section \<open>C5: offsets without a valid fit\<close>

text \<open>
  C5 says that offsets are written to the parameter store only after a fit with a
  finite centre. After a fit with a non-finite centre nothing is written
  (\<open>nonfinite_centre_writes_nothing\<close>); but with one sample only, no fit is invoked,
  the instance succeeds and the offsets written are the uninitialised \<open>sphere_x\<close>,
  \<open>sphere_y\<close>, \<open>sphere_z\<close>: here a NaN, an infinity and 7.
\<close>

theorem offsets_written_without_fit:
  "calibration_counter (acquire (inst g_onesample 0) 0) = 1
   \<and> fst (calibrate_instance g_onesample 0 42) = OK
   \<and> filter is_fit (snd (calibrate_instance g_onesample 0 42)) = []
   \<and> param_calls (snd (calibrate_instance g_onesample 0 42)) =
         [(''CAL_MAG0_ID'', PUInt 42),
          (''CAL_MAG0_XOFF'', PFloat NaN),
          (''CAL_MAG0_YOFF'', PFloat PlusInf),
          (''CAL_MAG0_ZOFF'', PFloat (Finite 7)),
          (''CAL_MAG0_XSCALE'', PFloat (Finite 1)),
          (''CAL_MAG0_YSCALE'', PFloat (Finite 1)),
          (''CAL_MAG0_ZSCALE'', PFloat (Finite 1)),
          (''CAL_MAG0_TMPNOM'', PFloat (Finite 0)),
          (''CAL_MAG0_TMPMIN'', PFloat (Finite 0)),
          (''CAL_MAG0_TMPMAX'', PFloat (Finite 0)),
          (''CAL_MAG0_TA0X0'', PFloat (Finite 0)),
          (''CAL_MAG0_TA0X1'', PFloat (Finite 0)),
          (''CAL_MAG0_TA0X2'', PFloat (Finite 0)),
          (''CAL_MAG0_TA1X0'', PFloat (Finite 0)),
          (''CAL_MAG0_TA1X1'', PFloat (Finite 0)),
          (''CAL_MAG0_TA1X2'', PFloat (Finite 0)),
          (''CAL_MAG0_TA2X0'', PFloat (Finite 0)),
          (''CAL_MAG0_TA2X1'', PFloat (Finite 0)),
          (''CAL_MAG0_TA2X2'', PFloat (Finite 0))]"
proof -
  have i: "inst g_onesample 0 = e_onesample"
    by (simp add: g_onesample_def)
  have e: "\<not> x_null e_onesample" "\<not> y_null e_onesample" "\<not> z_null e_onesample"
    "get_scale_ret e_onesample = OK" "apply_ret e_onesample = OK"
    "get_scale_val e_onesample = mscale_null"
    "uninit_sphere e_onesample = (NaN, PlusInf, Finite 7)"
    "param_set e_onesample = (\<lambda>name v. OK)"
    by (simp_all add: e_onesample_def e_healthy_def)
  have n: "calibration_counter (acquire e_onesample 0) \<le> calibration_maxcount div 2"
    by (simp add: onesample_acquire calibration_maxcount_def)
  have a: "acq_res (acquire e_onesample 0) = OK"
    by (simp add: onesample_acquire)
  show ?thesis
    using insufficient_samples_reach_param_writes [of g_onesample 0 42]
      insufficient_samples_skip_fit [of g_onesample 0 42] n a
    by (simp add: i e)
       (simp add: onesample_acquire param_writes_explicit temp_terms_def with_offsets_def
          mscale_null_def)
qed
section \<open>C6: what the apply step changes in the scale struct\<close>

text \<open>
  C6: when the fit has run with a finite centre and the scale struct \<open>m\<close> has been read
  back from the device and written back with success, the struct written to the
  device is \<open>m\<close> with its three offsets replaced by the fitted centre and nothing
  else changed, and the values written to the parameter store are: the fitted centre
  as offsets, the scale factors of \<open>m\<close> exactly as read, and the
  temperature-compensation fields of the hardcoded table if the device id is 131594,
  those of \<open>m\<close> as read otherwise.
\<close>

theorem apply_replaces_only_offsets:
  assumes "\<not> x_null (inst g s)" and "\<not> y_null (inst g s)" and "\<not> z_null (inst g s)"
    and "acq_res (acquire (inst g s) s) = OK"
    and "calibration_maxcount div 2 < calibration_counter (acquire (inst g s) s)"
    and "sphere_fit_least_squares g (x_arr (acquire (inst g s) s))
           (y_arr (acquire (inst g s) s)) (z_arr (acquire (inst g s) s))
           (calibration_counter (acquire (inst g s) s)) = (cx, cy, cz)"
    and "isfinite cx" and "isfinite cy" and "isfinite cz"
    and "get_scale_ret (inst g s) = OK"
    and "apply_ret (inst g s) = OK"
    and "get_scale_val (inst g s) = m"
  shows "scale_writes (snd (calibrate_instance g s d)) =
           [(s, m\<lparr> x_offset := cx, y_offset := cy, z_offset := cz \<rparr>)]
       \<and> param_calls (snd (calibrate_instance g s d)) =
           [(''CAL_MAG'' @ dec s @ ''_ID'', PUInt d),
            (''CAL_MAG'' @ dec s @ ''_XOFF'', PFloat cx),
            (''CAL_MAG'' @ dec s @ ''_YOFF'', PFloat cy),
            (''CAL_MAG'' @ dec s @ ''_ZOFF'', PFloat cz),
            (''CAL_MAG'' @ dec s @ ''_XSCALE'', PFloat (x_scale m)),
            (''CAL_MAG'' @ dec s @ ''_YSCALE'', PFloat (y_scale m)),
            (''CAL_MAG'' @ dec s @ ''_ZSCALE'', PFloat (z_scale m)),
            (''CAL_MAG'' @ dec s @ ''_TMPNOM'',
               PFloat (if d = 131594 then Finite 25 else cal_temp m)),
            (''CAL_MAG'' @ dec s @ ''_TMPMIN'',
               PFloat (if d = 131594 then Finite (13841203 / 2 ^ 22) else min_temp m)),
            (''CAL_MAG'' @ dec s @ ''_TMPMAX'',
               PFloat (if d = 131594 then Finite (5397545 / 2 ^ 17) else max_temp m)),
            (''CAL_MAG'' @ dec s @ ''_TA0X0'',
               PFloat (if d = 131594 then Finite (- (15403487 / 2 ^ 34))
                       else idx3 (x1_temp m) 0)),
            (''CAL_MAG'' @ dec s @ ''_TA0X1'',
               PFloat (if d = 131594 then Finite (- (5844727 / 2 ^ 40))
                       else idx3 (x2_temp m) 0)),
            (''CAL_MAG'' @ dec s @ ''_TA0X2'',
               PFloat (if d = 131594 then Finite (447943 / 2 ^ 41)
                       else idx3 (x3_temp m) 0)),
            (''CAL_MAG'' @ dec s @ ''_TA1X0'',
               PFloat (if d = 131594 then Finite (11517439 / 2 ^ 35)
                       else idx3 (x1_temp m) 1)),
            (''CAL_MAG'' @ dec s @ ''_TA1X1'',
               PFloat (if d = 131594 then Finite (- (12821755 / 2 ^ 42))
                       else idx3 (x2_temp m) 1)),
            (''CAL_MAG'' @ dec s @ ''_TA1X2'',
               PFloat (if d = 131594 then Finite (- (14233573 / 2 ^ 49))
                       else idx3 (x3_temp m) 1)),
            (''CAL_MAG'' @ dec s @ ''_TA2X0'',
               PFloat (if d = 131594 then Finite (- (12646137 / 2 ^ 33))
                       else idx3 (x1_temp m) 2)),
            (''CAL_MAG'' @ dec s @ ''_TA2X1'',
               PFloat (if d = 131594 then Finite (3559335 / 2 ^ 39)
                       else idx3 (x2_temp m) 2)),
            (''CAL_MAG'' @ dec s @ ''_TA2X2'',
               PFloat (if d = 131594 then Finite (9393719 / 2 ^ 50)
                       else idx3 (x3_temp m) 2))]"
proof -
  have r: "res_after_fit g s = OK"
    using assms by (simp add: res_after_fit_eq)
  have c: "sphere_centre g s = (cx, cy, cz)"
    using assms by (simp add: sphere_centre_eq)
  have p: "param_phase_reached g s"
    using assms r by (simp add: param_phase_reached_def)
  have w: "with_offsets m (cx, cy, cz) = m\<lparr> x_offset := cx, y_offset := cy, z_offset := cz \<rparr>"
    by (simp add: with_offsets_def)
  have 1: "scale_writes (snd (calibrate_instance g s d)) =
           [(s, m\<lparr> x_offset := cx, y_offset := cy, z_offset := cz \<rparr>)]"
    using assms r by (simp add: calibrate_instance_scale_writes c w)
  have 2: "param_calls (snd (calibrate_instance g s d)) =
      param_writes s d (temp_terms d (m\<lparr> x_offset := cx, y_offset := cy, z_offset := cz \<rparr>))"
    using assms(12) p by (simp add: calibrate_instance_param_calls c w)
  show ?thesis
    unfolding 1 2
    by (simp add: param_writes_explicit temp_terms_def matlab_estimations_def)
qed


theorem apply_replaces_only_offsets_witness:
  "\<not> x_null (inst g_healthy 0) \<and> \<not> y_null (inst g_healthy 0) \<and> \<not> z_null (inst g_healthy 0)
   \<and> acq_res (acquire (inst g_healthy 0) 0) = OK
   \<and> calibration_maxcount div 2 < calibration_counter (acquire (inst g_healthy 0) 0)
   \<and> sphere_fit_least_squares g_healthy (x_arr (acquire (inst g_healthy 0) 0))
        (y_arr (acquire (inst g_healthy 0) 0)) (z_arr (acquire (inst g_healthy 0) 0))
        (calibration_counter (acquire (inst g_healthy 0) 0))
        = (Finite 100, Finite (- 50), Finite 30)
   \<and> get_scale_ret (inst g_healthy 0) = OK \<and> apply_ret (inst g_healthy 0) = OK
   \<and> get_scale_val (inst g_healthy 0) = mscale_null
   \<and> scale_writes (snd (calibrate_instance g_healthy 0 131594)) =
         [(0, mscale_null\<lparr> x_offset := Finite 100, y_offset := Finite (- 50),
                            z_offset := Finite 30 \<rparr>)]
   \<and> param_calls (snd (calibrate_instance g_healthy 0 131594)) =
         [(''CAL_MAG0_ID'', PUInt 131594),
          (''CAL_MAG0_XOFF'', PFloat (Finite 100)),
          (''CAL_MAG0_YOFF'', PFloat (Finite (- 50))),
          (''CAL_MAG0_ZOFF'', PFloat (Finite 30)),
          (''CAL_MAG0_XSCALE'', PFloat (Finite 1)),
          (''CAL_MAG0_YSCALE'', PFloat (Finite 1)),
          (''CAL_MAG0_ZSCALE'', PFloat (Finite 1)),
          (''CAL_MAG0_TMPNOM'', PFloat (Finite 25)),
          (''CAL_MAG0_TMPMIN'', PFloat (Finite (13841203 / 2 ^ 22))),
          (''CAL_MAG0_TMPMAX'', PFloat (Finite (5397545 / 2 ^ 17))),
          (''CAL_MAG0_TA0X0'', PFloat (Finite (- (15403487 / 2 ^ 34)))),
          (''CAL_MAG0_TA0X1'', PFloat (Finite (- (5844727 / 2 ^ 40)))),
          (''CAL_MAG0_TA0X2'', PFloat (Finite (447943 / 2 ^ 41))),
          (''CAL_MAG0_TA1X0'', PFloat (Finite (11517439 / 2 ^ 35))),
          (''CAL_MAG0_TA1X1'', PFloat (Finite (- (12821755 / 2 ^ 42)))),
          (''CAL_MAG0_TA1X2'', PFloat (Finite (- (14233573 / 2 ^ 49)))),
          (''CAL_MAG0_TA2X0'', PFloat (Finite (- (12646137 / 2 ^ 33)))),
          (''CAL_MAG0_TA2X1'', PFloat (Finite (3559335 / 2 ^ 39))),
          (''CAL_MAG0_TA2X2'', PFloat (Finite (9393719 / 2 ^ 50)))]"
proof -
  have i: "inst g_healthy 0 = e_healthy"
    and f: "sphere_fit_least_squares g_healthy =
              (\<lambda>xa ya za n. (Finite 100, Finite (- 50), Finite 30))"
    by (simp_all add: g_healthy_def)
  have a: "acq_res (acquire e_healthy 0) = OK"
    and n: "calibration_maxcount div 2 < calibration_counter (acquire e_healthy 0)"
    using e_healthy_acquire [of 0] by (simp_all add: calibration_maxcount_def)
  show ?thesis
    using apply_replaces_only_offsets [of g_healthy 0 "Finite 100" "Finite (- 50)" "Finite 30"
        mscale_null 131594] a n
    by (simp add: i f) (simp add: mscale_null_def)
qed

section \<open>C7: a failing parameter write\<close>

text \<open>
  C7: once the parameter writes of an instance are reached, the calls of
  \<open>param_set\<close> are the 19 writes of the sequence, in order, whatever any of them
  returns (with any other answers \<open>ps\<close> of the parameter store the same calls are
  made); the instance ends with \<open>ERROR\<close> exactly when one of them did not return
  \<open>OK\<close>; and each name is written once, so that nothing written is written again or
  undone.
\<close>

theorem param_set_failure_fails_instance_only:
  assumes "param_phase_reached g s"
  shows "param_calls (snd (calibrate_instance g s d)) =
           param_writes s d
             (temp_terms d (with_offsets (get_scale_val (inst g s)) (sphere_centre g s)))
       \<and> param_calls (snd (calibrate_instance (with_param_set g s ps) s d)) =
           param_calls (snd (calibrate_instance g s d))
       \<and> fst (calibrate_instance g s d) =
           (if list_ex (\<lambda>(name, v). param_set (inst g s) name v \<noteq> OK)
                 (param_calls (snd (calibrate_instance g s d)))
            then ERROR else OK)
       \<and> length (param_calls (snd (calibrate_instance g s d))) = 19
       \<and> distinct (map fst (param_calls (snd (calibrate_instance g s d))))"
  using assms
  by (simp add: with_param_set_calls)
     (simp add: calibrate_instance_param_calls calibrate_instance_res apply_phase_res
        param_writes_length param_writes_distinct param_phase_reached_def)

theorem param_set_failure_fails_instance_only_witness:
  "param_phase_reached g_yoff_fails 0
   \<and> fst (calibrate_instance g_yoff_fails 0 42) = ERROR
   \<and> param_calls (snd (calibrate_instance g_yoff_fails 0 42)) =
         [(''CAL_MAG0_ID'', PUInt 42),
          (''CAL_MAG0_XOFF'', PFloat (Finite 100)),
          (''CAL_MAG0_YOFF'', PFloat (Finite (- 50))),
          (''CAL_MAG0_ZOFF'', PFloat (Finite 30)),
          (''CAL_MAG0_XSCALE'', PFloat (Finite 1)),
          (''CAL_MAG0_YSCALE'', PFloat (Finite 1)),
          (''CAL_MAG0_ZSCALE'', PFloat (Finite 1)),
          (''CAL_MAG0_TMPNOM'', PFloat (Finite 0)),
          (''CAL_MAG0_TMPMIN'', PFloat (Finite 0)),
          (''CAL_MAG0_TMPMAX'', PFloat (Finite 0)),
          (''CAL_MAG0_TA0X0'', PFloat (Finite 0)),
          (''CAL_MAG0_TA0X1'', PFloat (Finite 0)),
          (''CAL_MAG0_TA0X2'', PFloat (Finite 0)),
          (''CAL_MAG0_TA1X0'', PFloat (Finite 0)),
          (''CAL_MAG0_TA1X1'', PFloat (Finite 0)),
          (''CAL_MAG0_TA1X2'', PFloat (Finite 0)),
          (''CAL_MAG0_TA2X0'', PFloat (Finite 0)),
          (''CAL_MAG0_TA2X1'', PFloat (Finite 0)),
          (''CAL_MAG0_TA2X2'', PFloat (Finite 0))]"
proof -
  note t = param_set_failure_fails_instance_only [OF yoff_fails_reached, of 42 "\<lambda>name v. OK"]
  have calls: "param_calls (snd (calibrate_instance g_yoff_fails 0 42)) =
      param_writes 0 42 (temp_terms 42 (with_offsets mscale_null
         (Finite 100, Finite (- 50), Finite 30)))"
    using t by (simp add: yoff_fails_centre)
  show ?thesis
    using t yoff_fails_reached unfolding calls
    by (simp add: param_writes_explicit temp_terms_def with_offsets_def mscale_null_def)
qed


section \<open>C8: a failing range calibration\<close>

text \<open>
  C8: when the device opens, the reset succeeds and the range calibration fails, the
  failure is reported with an informational message, \<open>res\<close> is set back to \<open>OK\<close> and
  \<open>calibrate_instance\<close> runs; the status, the count of calibrated instances and the
  events of \<open>calibrate_instance\<close> are those of the same run with a successful range
  calibration, which differs by the informational message only.
\<close>

theorem range_calibration_failure_is_soft:
  assumes "0 \<le> open_fd (inst g s)" and "reset_ret (inst g s) = OK"
    and "calibrate_ret (inst g s) \<noteq> OK"
  shows "instance_step g s (r, n, evs) =
           (fst (calibrate_instance g s (device_id_ret (inst g s))),
            (if fst (calibrate_instance g s (device_id_ret (inst g s))) = OK then n + 1 else n),
            evs @ [Open s, Info (Text ''Calibrating magnetometer #%u..''), GetDeviceId s,
                   SetScale s mscale_null, Calibrate s,
                   Info (Text ''Skipped scale calibration'')] @
                  snd (calibrate_instance g s (device_id_ret (inst g s))))
       \<and> instance_step (with_calibrate_ret g s OK) s (r, n, evs) =
           (fst (calibrate_instance g s (device_id_ret (inst g s))),
            (if fst (calibrate_instance g s (device_id_ret (inst g s))) = OK then n + 1 else n),
            evs @ [Open s, Info (Text ''Calibrating magnetometer #%u..''), GetDeviceId s,
                   SetScale s mscale_null, Calibrate s] @
                  snd (calibrate_instance g s (device_id_ret (inst g s))))"
  using assms
  by (simp add: instance_step_eq instance_events_eq instance_ok_def
        with_calibrate_ret_instance)

theorem range_calibration_failure_is_soft_witness:
  "0 \<le> open_fd (inst g_range_fails 0) \<and> reset_ret (inst g_range_fails 0) = OK
   \<and> calibrate_ret (inst g_range_fails 0) \<noteq> OK
   \<and> fst (instance_step g_range_fails 0 (ERROR, 0, [Info CAL_STARTED_MSG])) = OK
   \<and> fst (snd (instance_step g_range_fails 0 (ERROR, 0, [Info CAL_STARTED_MSG]))) = 1"
proof -
  have h: "0 \<le> open_fd (inst g_range_fails 0)" "reset_ret (inst g_range_fails 0) = OK"
    "calibrate_ret (inst g_range_fails 0) \<noteq> OK"
    by (simp_all add: g_range_fails_def OK_def ERROR_def)
  have i: "inst g_range_fails 0 = e_healthy\<lparr> calibrate_ret := ERROR \<rparr>"
    by (simp add: g_range_fails_def)
  have "inst (with_calibrate_ret g_range_fails 0 OK) 0 = e_healthy"
    by (simp add: with_calibrate_ret_def g_range_fails_def e_healthy_def)
  then have "instance_ok (with_calibrate_ret g_range_fails 0 OK) 0"
    by (rule healthy_instance_ok [of _ _ "Finite 100" "Finite (- 50)" "Finite 30"])
       (simp_all add: with_calibrate_ret_def g_range_fails_def)
  then have ok: "fst (calibrate_instance g_range_fails 0 131594) = OK"
    by (simp add: instance_ok_def with_calibrate_ret_instance i)
  show ?thesis
    using h range_calibration_failure_is_soft [OF h, of ERROR 0 "[Info CAL_STARTED_MSG]"] ok
    by (simp add: i)
qed
section \<open>C9: a failing instance does not stop the loop\<close>

text \<open>
  C9: whatever happens to an instance, the loop processes the indices 0, 1 and 2:
  the events of a run are those of instance 0, then 1, then 2, each beginning with
  the \<open>open\<close> of its device; the events of an instance and whether it is calibrated
  depend on the answers for that instance alone, not on the other instances; the
  count \<open>calibrated_ok\<close> is the number of instances calibrated on their own, and one
  calibrated instance makes the run go to the persistence step, whose result is the
  result of the run.
\<close>

theorem instance_failure_never_aborts_loop:
  "snd (snd (mag_loop g)) =
     [Info CAL_STARTED_MSG] @ instance_events g 0 @ instance_events g 1 @ instance_events g 2
   \<and> fst (snd (mag_loop g)) = length (filter (instance_ok g) [0, 1, 2])
   \<and> hd (instance_events g s) = Open s
   \<and> (inst g' s = inst g s \<and> sphere_fit_least_squares g' = sphere_fit_least_squares g
        \<longrightarrow> instance_events g' s = instance_events g s
            \<and> instance_ok g' s = instance_ok g s)
   \<and> (s < max_mags \<and> instance_ok g s
        \<longrightarrow> fst (snd (mag_loop g)) \<noteq> 0
            \<and> fst (do_mag_calibration g) = param_save_default g)"
proof -
  have "s < max_mags \<and> instance_ok g s \<longrightarrow> fst (snd (mag_loop g)) \<noteq> 0"
    using count_pos_iff [of g] by (auto simp: mag_loop_count)
  then show ?thesis
    using instance_events_cong [of g' s g]
    by (auto simp: mag_loop_events mag_loop_count upt_max_mags instance_events_hd
          do_mag_calibration_res)
qed

theorem instance_failure_never_aborts_loop_witness:
  "\<not> instance_ok g_partial 0
   \<and> inst g_healthy 1 = inst g_partial 1
   \<and> sphere_fit_least_squares g_healthy = sphere_fit_least_squares g_partial
   \<and> instance_ok g_healthy 1
   \<and> (1::nat) < max_mags \<and> instance_ok g_partial 1
   \<and> fst (snd (mag_loop g_partial)) = 1
   \<and> fst (do_mag_calibration g_partial) = OK"
proof -
  have 0: "\<not> instance_ok g_partial 0"
    by (rule timeout_not_ok) (simp add: g_partial_def)
  have 2: "\<not> instance_ok g_partial 2"
    by (rule absent_not_ok) (simp add: g_partial_def)
  have h: "inst g_healthy 1 = inst g_partial 1"
    "sphere_fit_least_squares g_healthy = sphere_fit_least_squares g_partial"
    by (simp_all add: g_healthy_def g_partial_def)
  have ok: "instance_ok g_healthy 1"
    by (rule healthy_instance_ok [of _ _ "Finite 100" "Finite (- 50)" "Finite 30"])
       (simp_all add: g_healthy_def)
  note t = instance_failure_never_aborts_loop [of g_partial 1 g_healthy]
  have 1: "instance_ok g_partial 1"
    using t h ok by simp
  show ?thesis
    using t 0 1 2 h ok by (simp add: max_mags_def) (simp add: g_partial_def)
qed
section \<open>C10: the instances of a run\<close>

text \<open>
  C10: in every run the instances addressed by an \<open>open\<close>, an ioctl, a subscription or
  a fit are exactly the indices 0, 1 and 2; every parameter written has one of the
  names of the instances 0, 1, 2; and for an index \<open>i\<close> of 3 or more, no event
  addresses instance \<open>i\<close> and none of the parameter names of instance \<open>i\<close> is written.
\<close>

theorem only_instances_0_1_2:
  "set (addressed (snd (do_mag_calibration g))) = {0, 1, 2}
   \<and> set (map fst (param_calls (snd (do_mag_calibration g))))
        \<subseteq> set (instance_keys 0) \<union> set (instance_keys 1) \<union> set (instance_keys 2)
   \<and> (max_mags \<le> i
        \<longrightarrow> i \<notin> set (addressed (snd (do_mag_calibration g)))
            \<and> set (instance_keys i) \<inter> set (map fst (param_calls (snd (do_mag_calibration g))))
                = {})"
proof -
  have "set (instance_keys i) \<inter> set (map fst (param_calls (snd (do_mag_calibration g)))) = {}"
    if "max_mags \<le> i"
  proof -
    have "i \<noteq> 0" "i \<noteq> 1" "i \<noteq> 2" using that by (simp_all add: max_mags_def)
    then show ?thesis
      using do_mag_calibration_keys [of g] instance_keys_disjoint [of i 0]
        instance_keys_disjoint [of i 1] instance_keys_disjoint [of i 2]
      by blast
  qed
  then show ?thesis
    using do_mag_calibration_keys [of g]
    by (auto simp: do_mag_calibration_addressed max_mags_def)
qed


theorem only_instances_0_1_2_witness:
  "max_mags \<le> 3
   \<and> 3 \<notin> set (addressed (snd (do_mag_calibration g_partial)))
   \<and> set (instance_keys 3) \<inter> set (map fst (param_calls (snd (do_mag_calibration g_partial))))
       = {}
   \<and> map fst (param_calls (snd (do_mag_calibration g_partial))) = instance_keys 1"
proof -
  have h: "max_mags \<le> 3" by (simp add: max_mags_def)
  have 0: "param_calls (instance_events g_partial 0) = []"
    using timeout_not_reached [of g_partial 0]
    by (simp add: param_calls_instance_events calibrate_instance_param_calls g_partial_def)
  have 2: "param_calls (instance_events g_partial 2) = []"
    by (simp add: param_calls_instance_events g_partial_def e_absent_def)
  have "param_phase_reached g_partial 1"
    by (rule healthy_reached [of _ _ "Finite 100" "Finite (- 50)" "Finite 30"])
       (simp_all add: g_partial_def)
  then have 1: "map fst (param_calls (instance_events g_partial 1)) = instance_keys 1"
    by (simp add: param_calls_instance_events calibrate_instance_param_calls param_keys)
       (simp add: g_partial_def)
  have k: "map fst (param_calls (snd (do_mag_calibration g_partial))) = instance_keys 1"
    using 0 1 2 by (simp add: do_mag_calibration_events mag_loop_events upt_max_mags)
  show ?thesis
    using only_instances_0_1_2 [of g_partial 3] h k by simp
qed


end
